theory Spec2Isabelle
  imports Complex_Main "HOL-Library.AList"
begin

section \<open>JavaScript values used by the engine\<close>

text \<open>
  \<open>Record<string, any>\<close> objects (\<open>user_inputs\<close>, \<open>context_updates\<close>, the caller's
  initial context) are association lists from property names to values, in property order.
  Numbers are exact rationals: the binary64 rounding of JavaScript arithmetic is not
  modelled. A string is a list of characters and its \<open>length\<close> the number of them, as
  the source's \<open>.length\<close> is for text in the Basic Latin range.
\<close>

datatype jsval =
    JUndefined
  | JNull
  | JBool bool
  | JNum rat
  | JStr string
  | JArr "jsval list"
  | JObj "(string \<times> jsval) list"

type_synonym jsrecord = "(string \<times> jsval) list"

text \<open>
  \<open>Object.assign(target, source)\<close>: every own property of \<open>source\<close>, in order, is written
  to \<open>target\<close>; an existing property keeps its place and takes the new value, a new one is
  appended. An object literal \<open>{...a, k1: v1, ..., kn: vn}\<close> is the same assignment of
  the listed properties onto a copy of \<open>a\<close>.
\<close>

definition object_assign :: "jsrecord \<Rightarrow> jsrecord \<Rightarrow> jsrecord" where
  "object_assign target source = fold (\<lambda>(k, v). AList.update k v) source target"

text \<open>\<open>Array.prototype.join\<close> on strings.\<close>

fun join_str :: "string \<Rightarrow> string list \<Rightarrow> string" where
  "join_str sep [] = []"
| "join_str sep [x] = x"
| "join_str sep (x # y # ys) = x @ sep @ join_str sep (y # ys)"

text \<open>
  A number that an arithmetic operation returns: a finite value, an infinity or \<open>NaN\<close>.
\<close>

datatype jsnum = NaN | Finite rat | PosInfinity | NegInfinity

text \<open>
  The binary64 value nearest to a rational, which is what a multiplication returns for
  the exact product: the exponent \<open>k\<close> of the binade is found from \<open>- 1022\<close> upwards
  (\<open>\<bar>x\<bar> < 2 ^ (k + 1)\<close>, at most \<open>1023\<close>), the value is rounded to a multiple of
  \<open>2 ^ (k - 52)\<close>, a tie going to the even multiple, and a result of \<open>2 ^ 1024\<close> is
  an infinity.
\<close>

fun exponent_search :: "nat \<Rightarrow> int \<Rightarrow> rat \<Rightarrow> int" where
  "exponent_search 0 k x = k"
| "exponent_search (Suc n) k x = (if x < 2 powi (k + 1) then k else exponent_search n (k + 1) x)"

definition binary_exponent :: "rat \<Rightarrow> int" where
  "binary_exponent x = exponent_search 2045 (- 1022) \<bar>x\<bar>"

definition round_half_even :: "rat \<Rightarrow> int" where
  "round_half_even q =
     (let f = \<lfloor>q\<rfloor>
      in if q - of_int f < 1 / 2 then f
         else if q - of_int f > 1 / 2 then f + 1
         else if even f then f else f + 1)"

definition binary64 :: "rat \<Rightarrow> jsnum" where
  "binary64 x =
     (let ulp = 2 powi (binary_exponent x - 52);
          r = of_int (round_half_even (\<bar>x\<bar> / ulp)) * ulp
      in if r \<ge> 2 powi 1024 then (if x > 0 then PosInfinity else NegInfinity)
         else Finite (if x < 0 then - r else r))"

text \<open>\<open>Math.round\<close> of a finite number: the nearest integer, a tie going up.\<close>

definition Math_round :: "rat \<Rightarrow> int" where
  "Math_round x = \<lfloor>x + 1 / 2\<rfloor>"

text \<open>
  The decimal digits of an integer. This is the text a template literal gives an
  integer-valued number of magnitude below \<open>2 ^ 53\<close>, where every integer is a number
  of its own.
\<close>

fun nat_str :: "nat \<Rightarrow> string" where
  "nat_str n = (if n < 10 then [''0123456789'' ! n]
                else nat_str (n div 10) @ [''0123456789'' ! (n mod 10)])"

declare nat_str.simps [simp del]

definition number_str :: "int \<Rightarrow> string" where
  "number_str i = (if i < 0 then ''-'' @ nat_str (nat (- i)) else nat_str (nat i))"



section \<open>Data model (types/index.d.ts, schemas/decision.schema.ts)\<close>

record strategy_analysis =
  sa_current_goal :: string
  sa_goal_progress :: string
  sa_situation_assessment :: string
  sa_relevant_guidelines :: "string list"
  sa_opportunities :: "string list"
  sa_risk_factors :: "string list"

record flow_decision =
  fd_next_action :: string
  fd_reasoning :: string
  fd_confidence :: rat
  fd_urgency :: string
  fd_backup_plan :: string

record action_execution =
  ae_message :: string
  ae_message_intent :: string
  ae_expected_user_response :: string
  ae_context_updates :: jsrecord
  ae_next_goal :: string

record decision_meta =
  dm_session_stage :: string
  dm_user_sentiment :: string
  dm_should_escalate :: bool
  dm_escalation_reason :: "string option"

record decision =
  strategy_analysis :: strategy_analysis
  flow_decision :: flow_decision
  action_execution :: action_execution
  meta :: decision_meta

datatype quality = High | Medium | Low

record response_meta =
  rm_session_stage :: string
  rm_user_sentiment :: string
  rm_should_escalate :: bool
  rm_decision_quality :: quality

record agentResponse =
  message :: string
  action_taken :: string
  reasoning :: string
  confidence :: rat
  context_updates :: jsrecord
  suggested_next_user_action :: "string option"
  response_meta :: "response_meta option"

datatype status = Active | Paused | Completed | Escalated

datatype role = User | Assistant | System

record chat_message =
  msg_id :: string
  msg_role :: role
  msg_content :: string
  msg_timestamp :: int

record user_profile =
  detected_intent :: "string option"
  sentiment :: "string option"
  expertise_level :: "string option"

record agent_memory =
  last_action :: string
  reasoning_history :: "string list"
  failed_attempts :: "string list"
  successful_patterns :: "string list"

record sessionContext =
  session_id :: string
  user_id :: string
  strategy_name :: string
  status :: status
  current_goal :: string
  messages_count :: int
  user_inputs :: jsrecord
  user_profile :: user_profile
  messages :: "chat_message list"
  agent_memory :: agent_memory
  created_at :: int
  updated_at :: int

record personality =
  tone :: string
  style :: string
  pace :: string

record guidelines =
  must_do :: "string list"
  must_not_do :: "string list"
  prefer_to_do :: "string list"
  avoid_doing :: "string list"

record knowledge =
  key_info :: "string list"
  common_questions :: "string list"
  escalation_triggers :: "string list"

text \<open>
  \<open>personality\<close> and \<open>guidelines\<close> are options because \<open>validateStrategy\<close> tests at run
  time whether they are there.
\<close>

record strategy =
  name :: string
  domain :: string
  primary_goal :: string
  secondary_goals :: "string list"
  llm_provider :: string
  model :: string
  personality :: "personality option"
  system_prompt :: "string option"
  guidelines :: "guidelines option"
  knowledge :: knowledge

section \<open>What the outside world supplies during one call\<close>

text \<open>
  A value thrown inside a \<open>try\<close> block: an \<open>Error\<close> with its message, or anything else.
\<close>

datatype thrown = Err string | NonError

text \<open>
  The input of a tool call is cast to \<open>Decision\<close> unchecked. \<open>Malformed t\<close> is an input
  on which the interpreter's property accesses throw \<open>t\<close>.
\<close>

datatype payload = Wellformed decision | Malformed thrown

record tool_call =
  toolName :: string
  tool_input :: payload

text \<open>
  The oracle round (\<open>composePrompt\<close> and \<open>generateText\<close>) either throws or returns the
  list of tool calls.
\<close>

datatype oracle_result = Throws thrown | Returns "tool_call list"

text \<open>
  A language model as the provider packages build it, or some other value that a call
  returned in its place.
\<close>

datatype language_model = AnthropicModel string | GoogleModel string | NotAModel

text \<open>
  What the built-in objects of the JavaScript engine do, as far as the code can reach
  them:
  \<^item> \<open>large_number_text i\<close> is the text of the number \<open>i\<close>, an integer of magnitude
    \<open>2 ^ 53\<close> or more (the digits of the shortest decimal that reads back as the
    number, in exponent form from \<open>1e21\<close>);
  \<^item> \<open>inherited_call n\<close> is \<open>None\<close> when a plain object has no property \<open>n\<close> but
    its own, and otherwise the outcome of calling, without arguments, the property
    \<open>n\<close> that it inherits from \<open>Object.prototype\<close>;
  \<^item> \<open>builtin_call b n\<close> is the same for the value that plain objects inherit under
    the name \<open>b\<close>: \<open>None\<close> when \<open>n\<close> is no property of it, otherwise the outcome
    of calling that property on it;
  \<^item> \<open>type_error\<close> is the error thrown when \<open>undefined\<close> is called.
\<close>

record engine =
  large_number_text :: "int \<Rightarrow> string"
  inherited_call :: "string \<Rightarrow> (thrown + language_model) option"
  builtin_call :: "string \<Rightarrow> string \<Rightarrow> (thrown + language_model) option"
  type_error :: thrown

text \<open>
  \<open>clock k\<close> is the reading of \<open>new Date()\<close> at call site \<open>k\<close> of the running call,
  \<open>iso_clock k\<close> that of \<open>new Date().toISOString()\<close>, \<open>gen_message_id k\<close> the result
  of \<open>generateMessageId()\<close> at site \<open>k\<close>, \<open>gen_session_id\<close> the result of
  \<open>generateSarufiSessionId()\<close>.
\<close>

record env =
  oracle_outcome :: oracle_result
  clock :: "nat \<Rightarrow> int"
  iso_clock :: "nat \<Rightarrow> string"
  gen_message_id :: "nat \<Rightarrow> string"
  gen_session_id :: string
  engine :: engine

section \<open>Agent (agent/rag.ts)\<close>

text \<open>
  \<open>evaluateDecisionQuality\<close>: the score is built by four conditional increments of a
  local variable. The sixteen possible sums, computed in binary64 in this order, lie on
  the same side of 0.8 and of 0.5 as the exact sums.
\<close>

definition qualityScore :: "decision \<Rightarrow> rat" where
  "qualityScore decision =
     (let sa = strategy_analysis decision;
          fd = flow_decision decision;
          q0 = 0;
          q1 = (if length (sa_relevant_guidelines sa) > 0 then q0 + 3 / 10 else q0);
          q2 = (if fd_confidence fd > 7 / 10 then q1 + 3 / 10 else q1);
          q3 = (if length (sa_opportunities sa) > 0 \<or> length (sa_risk_factors sa) > 0
                then q2 + 2 / 10 else q2);
          q4 = (if length (fd_reasoning fd) > 20 then q3 + 2 / 10 else q3)
      in q4)"

definition evaluateDecisionQuality :: "decision \<Rightarrow> quality" where
  "evaluateDecisionQuality decision =
     (let qualityScore = qualityScore decision
      in if qualityScore \<ge> 8 / 10 then High
         else if qualityScore \<ge> 5 / 10 then Medium
         else Low)"

definition opt_str :: "string option \<Rightarrow> jsval" where
  "opt_str x = (case x of None \<Rightarrow> JUndefined | Some s \<Rightarrow> JStr s)"

text \<open>The decision object itself, as stored under \<open>last_decision\<close>.\<close>

definition decision_obj :: "decision \<Rightarrow> jsval" where
  "decision_obj d =
     JObj [
       (''strategy_analysis'', JObj [
          (''current_goal'', JStr (sa_current_goal (strategy_analysis d))),
          (''goal_progress'', JStr (sa_goal_progress (strategy_analysis d))),
          (''situation_assessment'', JStr (sa_situation_assessment (strategy_analysis d))),
          (''relevant_guidelines'', JArr (map JStr (sa_relevant_guidelines (strategy_analysis d)))),
          (''opportunities'', JArr (map JStr (sa_opportunities (strategy_analysis d)))),
          (''risk_factors'', JArr (map JStr (sa_risk_factors (strategy_analysis d))))]),
       (''flow_decision'', JObj [
          (''next_action'', JStr (fd_next_action (flow_decision d))),
          (''reasoning'', JStr (fd_reasoning (flow_decision d))),
          (''confidence'', JNum (fd_confidence (flow_decision d))),
          (''urgency'', JStr (fd_urgency (flow_decision d))),
          (''backup_plan'', JStr (fd_backup_plan (flow_decision d)))]),
       (''action_execution'', JObj [
          (''message'', JStr (ae_message (action_execution d))),
          (''message_intent'', JStr (ae_message_intent (action_execution d))),
          (''expected_user_response'', JStr (ae_expected_user_response (action_execution d))),
          (''context_updates'', JObj (ae_context_updates (action_execution d))),
          (''next_goal'', JStr (ae_next_goal (action_execution d)))]),
       (''meta'', JObj ([
          (''session_stage'', JStr (dm_session_stage (meta d))),
          (''user_sentiment'', JStr (dm_user_sentiment (meta d))),
          (''should_escalate'', JBool (dm_should_escalate (meta d)))]
          @ (case dm_escalation_reason (meta d) of None \<Rightarrow> []
             | Some r \<Rightarrow> [(''escalation_reason'', JStr r)])))]"

text \<open>
  The properties \<open>interpretDecision\<close> lists after the spread of the decision's own
  \<open>context_updates\<close>, in the order of the object literal.
\<close>

definition derived_updates :: "decision \<Rightarrow> string \<Rightarrow> sessionContext \<Rightarrow> env \<Rightarrow> jsrecord" where
  "derived_updates decision prompt context e =
     [(''last_decision'', decision_obj decision),
      (''last_user_message'', JStr prompt),
      (''session_stage'', JStr (dm_session_stage (meta decision))),
      (''user_sentiment'', JStr (dm_user_sentiment (meta decision))),
      (''guidelines_considered'', JArr (map JStr (sa_relevant_guidelines (strategy_analysis decision)))),
      (''opportunities_identified'', JArr (map JStr (sa_opportunities (strategy_analysis decision)))),
      (''risks_identified'', JArr (map JStr (sa_risk_factors (strategy_analysis decision)))),
      (''previous_goal'', JStr (current_goal context)),
      (''current_goal'', JStr (ae_next_goal (action_execution decision))),
      (''goal_progress'', JStr (sa_goal_progress (strategy_analysis decision))),
      (''decision_confidence'', JNum (fd_confidence (flow_decision decision))),
      (''backup_plan'', JStr (fd_backup_plan (flow_decision decision))),
      (''escalation_needed'', JBool (dm_should_escalate (meta decision))),
      (''escalation_reason'', opt_str (dm_escalation_reason (meta decision))),
      (''last_decision_time'', JStr (iso_clock e 0)),
      (''updated_at'', JStr (iso_clock e 1))]"

text \<open>
  The text of \<open>${Math.round(confidence * 100)}\<close>: the product is the binary64 product,
  \<open>Math.round\<close> leaves an infinity as it is, and the rounded number is printed.
\<close>

definition percent_text :: "env \<Rightarrow> rat \<Rightarrow> string" where
  "percent_text e c =
     (case binary64 (c * 100) of
        Finite p \<Rightarrow>
          (let i = Math_round p
           in if \<bar>i\<bar> < 2 ^ 53 then number_str i else large_number_text (engine e) i)
      | PosInfinity \<Rightarrow> ''Infinity''
      | NegInfinity \<Rightarrow> ''-Infinity''
      | NaN \<Rightarrow> ''NaN'')"

definition interpretDecision :: "decision \<Rightarrow> string \<Rightarrow> sessionContext \<Rightarrow> env \<Rightarrow> agentResponse" where
  "interpretDecision decision prompt context e =
     (let strategy_analysis = strategy_analysis decision;
          flow_decision = flow_decision decision;
          action_execution = action_execution decision;
          meta = meta decision;
          reasoning = join_str '' | ''
            [''Analysis: '' @ sa_situation_assessment strategy_analysis,
             ''Decision: '' @ fd_reasoning flow_decision,
             ''Action: '' @ ae_message_intent action_execution,
             ''Confidence: '' @ percent_text e (fd_confidence flow_decision) @ ''%'',
             ''Stage: '' @ dm_session_stage meta];
          contextUpdates = object_assign (ae_context_updates action_execution)
                             (derived_updates decision prompt context e)
      in \<lparr> message = ae_message action_execution,
           action_taken = fd_next_action flow_decision,
           reasoning = reasoning,
           confidence = fd_confidence flow_decision,
           context_updates = contextUpdates,
           suggested_next_user_action = Some (ae_expected_user_response action_execution),
           response_meta = Some \<lparr>
             rm_session_stage = dm_session_stage meta,
             rm_user_sentiment = dm_user_sentiment meta,
             rm_should_escalate = dm_should_escalate meta,
             rm_decision_quality = evaluateDecisionQuality decision \<rparr> \<rparr>)"

text \<open>\<open>error?.message || 'Unknown error'\<close>: an empty message is falsy.\<close>

definition thrown_message :: "thrown \<Rightarrow> string" where
  "thrown_message t = (case t of Err m \<Rightarrow> (if m = [] then ''Unknown error'' else m)
                       | NonError \<Rightarrow> ''Unknown error'')"

definition generateFallbackResponse :: "thrown \<Rightarrow> env \<Rightarrow> agentResponse" where
  "generateFallbackResponse error e =
     \<lparr> message = ''I apologize, but I'm having trouble processing your message right now. Could you please rephrase or try again?'',
       action_taken = ''error_fallback'',
       reasoning = ''System error: '' @ thrown_message error,
       confidence = 1 / 10,
       context_updates =
         [(''last_error'', JStr (thrown_message error)),
          (''error_timestamp'', JStr (iso_clock e 2)),
          (''fallback_used'', JBool True)],
       suggested_next_user_action = Some ''rephrase_or_retry'',
       response_meta = Some \<lparr>
         rm_session_stage = ''error_recovery'',
         rm_user_sentiment = ''unknown'',
         rm_should_escalate = True,
         rm_decision_quality = Low \<rparr> \<rparr>"

subsection \<open>The language model of a strategy (providers)\<close>

text \<open>
  \<open>MODEL_CONFIGS\<close> holds two plain objects of model factories. A property of a plain
  object is an own entry or one that it inherits; \<open>MODEL_CONFIGS[provider]\<close> is one
  of the two objects, a value that \<open>MODEL_CONFIGS\<close> itself inherits (every such value
  is truthy), or \<open>undefined\<close>.
\<close>

definition anthropic_models :: "(string \<times> language_model) list" where
  "anthropic_models =
     [(''claude-3-5-sonnet-20241022'', AnthropicModel ''claude-3-5-sonnet-20241022''),
      (''claude-3-5-haiku-20241022'', AnthropicModel ''claude-3-5-haiku-20241022''),
      (''claude-3-opus-20240229'', AnthropicModel ''claude-3-opus-20240229''),
      (''default'', AnthropicModel ''claude-3-5-sonnet-20241022'')]"

definition google_models :: "(string \<times> language_model) list" where
  "google_models =
     [(''gemini-1.5-pro-latest'', GoogleModel ''gemini-1.5-pro-latest''),
      (''gemini-2.5-flash'', GoogleModel ''gemini-2.5-flash''),
      (''gemini-pro'', GoogleModel ''gemini-pro''),
      (''default'', GoogleModel ''gemini-2.5-flash'')]"

datatype provider_config = AnthropicConfig | GoogleConfig | Inherited string

definition MODEL_CONFIGS_get :: "engine \<Rightarrow> string \<Rightarrow> provider_config option" where
  "MODEL_CONFIGS_get E provider =
     (if provider = ''anthropic'' then Some AnthropicConfig
      else if provider = ''google'' then Some GoogleConfig
      else if inherited_call E provider \<noteq> None then Some (Inherited provider)
      else None)"

text \<open>
  \<open>member E obj n\<close> is \<open>None\<close> when \<open>n in obj\<close> is false, and otherwise the outcome of
  the call \<open>obj[n]()\<close>.
\<close>

definition member :: "engine \<Rightarrow> provider_config \<Rightarrow> string \<Rightarrow> (thrown + language_model) option" where
  "member E obj n =
     (case obj of
        AnthropicConfig \<Rightarrow>
          (case map_of anthropic_models n of Some m \<Rightarrow> Some (Inr m) | None \<Rightarrow> inherited_call E n)
      | GoogleConfig \<Rightarrow>
          (case map_of google_models n of Some m \<Rightarrow> Some (Inr m) | None \<Rightarrow> inherited_call E n)
      | Inherited b \<Rightarrow> builtin_call E b n)"

text \<open>\<open>obj.default()\<close>: calling \<open>undefined\<close> when there is no such property.\<close>

definition call_default :: "engine \<Rightarrow> provider_config \<Rightarrow> thrown + language_model" where
  "call_default E obj = (case member E obj ''default'' of None \<Rightarrow> Inl (type_error E) | Some r \<Rightarrow> r)"

definition getLanguageModel :: "engine \<Rightarrow> strategy \<Rightarrow> thrown + language_model" where
  "getLanguageModel E strategy =
     (let provider = (if llm_provider strategy = [] then ''google'' else llm_provider strategy);
          modelName = model strategy
      in case MODEL_CONFIGS_get E provider of
           None \<Rightarrow> Inr (GoogleModel ''gemini-2.5-flash'')
         | Some providerConfig \<Rightarrow>
             if modelName \<noteq> [] \<and> member E providerConfig modelName \<noteq> None
             then (case member E providerConfig modelName of
                     None \<Rightarrow> Inl (type_error E) | Some r \<Rightarrow> r)
             else call_default E providerConfig)"

subsection \<open>The agent\<close>

text \<open>An agent is built from its strategy; the language model is chosen from it.\<close>

record agent =
  agent_strategy :: strategy

text \<open>The constructor: it throws what \<open>getLanguageModel\<close> throws.\<close>

definition new_Agent :: "engine \<Rightarrow> strategy \<Rightarrow> thrown + agent" where
  "new_Agent E strategy =
     (case getLanguageModel E strategy of
        Inl t \<Rightarrow> Inl t
      | Inr m \<Rightarrow> Inr \<lparr> agent_strategy = strategy \<rparr>)"

text \<open>
  The \<open>try\<close> block of \<open>processPrompt\<close>: \<open>Inl\<close> is the value thrown, by the oracle
  round, by the missing \<open>answer\<close> call or by interpreting a malformed input.
\<close>

definition processPrompt_try :: "agent \<Rightarrow> string \<Rightarrow> sessionContext \<Rightarrow> env \<Rightarrow> thrown + agentResponse" where
  "processPrompt_try a prompt context e =
     (case oracle_outcome e of
        Throws t \<Rightarrow> Inl t
      | Returns toolCalls \<Rightarrow>
          (case find (\<lambda>call. toolName call = ''answer'') toolCalls of
             None \<Rightarrow> Inl (Err ''No decision tool call found'')
           | Some decisionCall \<Rightarrow>
               (case tool_input decisionCall of
                  Malformed t \<Rightarrow> Inl t
                | Wellformed decision \<Rightarrow> Inr (interpretDecision decision prompt context e))))"

text \<open>\<open>processPrompt\<close>: its \<open>catch\<close> turns every thrown value into the fallback response.\<close>

definition processPrompt :: "agent \<Rightarrow> string \<Rightarrow> sessionContext \<Rightarrow> env \<Rightarrow> agentResponse" where
  "processPrompt a prompt context e =
     (case processPrompt_try a prompt context e of
        Inl error \<Rightarrow> generateFallbackResponse error e
      | Inr response \<Rightarrow> response)"

section \<open>Sarufi (core/sarufi.ts)\<close>

text \<open>
  A \<open>Map\<close> is an association list in insertion order: \<open>get\<close> is \<open>map_of\<close>, \<open>set\<close> is
  \<open>AList.update\<close> (an existing key keeps its place), \<open>delete\<close> is \<open>AList.delete\<close>,
  \<open>values()\<close> is \<open>map snd\<close>. The counters are integer-valued numbers.
\<close>

record sessionStats =
  totalSessions :: int
  activeSessions :: int
  completedSessions :: int
  totalMessages :: int
  totalSessionDuration :: int
  errorCount :: int

record sarufi =
  strategies :: "(string \<times> strategy) list"
  sessions :: "(string \<times> sessionContext) list"
  agents :: "(string \<times> agent) list"
  sessionStats :: sessionStats

definition new_Sarufi :: sarufi where
  "new_Sarufi =
     \<lparr> strategies = [], sessions = [], agents = [],
       sessionStats = \<lparr> totalSessions = 0, activeSessions = 0, completedSessions = 0,
                        totalMessages = 0, totalSessionDuration = 0, errorCount = 0 \<rparr> \<rparr>"

text \<open>
  The errors the class throws, one constructor for each \<open>throw new Error(...)\<close>, and
  \<open>Uncaught\<close> for a value thrown by a callee and not caught.
\<close>

datatype sarufi_error =
    StrategyNameMissing
  | PrimaryGoalMissing
  | DomainMissing
  | PersonalityMissing
  | GuidelinesMissing
  | StrategyNotFound string
  | AgentNotFound string
  | SessionNotFound string
  | SessionNotActive string
  | Uncaught thrown

definition error_message :: "sarufi_error \<Rightarrow> string" where
  "error_message err =
     (case err of
        StrategyNameMissing \<Rightarrow> ''Strategy must have a name''
      | PrimaryGoalMissing \<Rightarrow> ''Strategy must have a primary_goal''
      | DomainMissing \<Rightarrow> ''Strategy must have a domain''
      | PersonalityMissing \<Rightarrow> ''Strategy must have personality settings''
      | GuidelinesMissing \<Rightarrow> ''Strategy must have guidelines''
      | StrategyNotFound n \<Rightarrow> ''Strategy '' @ [CHR 0x27] @ n @ [CHR 0x27] @ '' not found''
      | AgentNotFound n \<Rightarrow> ''Agent for strategy '' @ [CHR 0x27] @ n @ [CHR 0x27] @ '' not found''
      | SessionNotFound i \<Rightarrow> ''AI Session '' @ [CHR 0x27] @ i @ [CHR 0x27] @ '' not found''
      | SessionNotActive i \<Rightarrow> ''AI Session '' @ [CHR 0x27] @ i @ [CHR 0x27] @ '' is not active''
      | Uncaught t \<Rightarrow> (case t of Err m \<Rightarrow> m | NonError \<Rightarrow> []))"

text \<open>\<open>validateStrategy\<close>: \<open>None\<close> when no check throws.\<close>

definition validateStrategy :: "strategy \<Rightarrow> sarufi_error option" where
  "validateStrategy strategy =
     (if name strategy = [] then Some StrategyNameMissing
      else if primary_goal strategy = [] then Some PrimaryGoalMissing
      else if domain strategy = [] then Some DomainMissing
      else if personality strategy = None then Some PersonalityMissing
      else if guidelines strategy = None then Some GuidelinesMissing
      else None)"

text \<open>
  Every operation returns its result, \<open>Inl\<close> for a thrown error, together with the state
  of the instance after the call.
\<close>

text \<open>
  \<open>registerStrategy\<close> stores the strategy before it builds the agent: when the
  constructor throws, the strategy is registered and no agent is stored for it.
\<close>

definition registerStrategy :: "engine \<Rightarrow> sarufi \<Rightarrow> strategy \<Rightarrow> (sarufi_error + unit) \<times> sarufi" where
  "registerStrategy E s strategy =
     (if name strategy = [] then (Inl StrategyNameMissing, s)
      else (case validateStrategy strategy of
              Some err \<Rightarrow> (Inl err, s)
            | None \<Rightarrow>
                (let s1 = s\<lparr> strategies := AList.update (name strategy) strategy (strategies s) \<rparr>
                 in case new_Agent E strategy of
                      Inl t \<Rightarrow> (Inl (Uncaught t), s1)
                    | Inr a \<Rightarrow>
                        (Inr (), s1\<lparr> agents := AList.update (name strategy) a (agents s1) \<rparr>))))"

definition getStrategy :: "sarufi \<Rightarrow> string \<Rightarrow> strategy option" where
  "getStrategy s n = map_of (strategies s) n"

definition unregisterStrategy :: "sarufi \<Rightarrow> string \<Rightarrow> bool \<times> sarufi" where
  "unregisterStrategy s n =
     (let removed = (map_of (strategies s) n \<noteq> None)
      in (removed,
          s\<lparr> strategies := AList.delete n (strategies s),
             agents := AList.delete n (agents s) \<rparr>))"

definition findSessionByUser :: "sarufi \<Rightarrow> string \<Rightarrow> sessionContext option" where
  "findSessionByUser s userId =
     find (\<lambda>c. user_id c = userId \<and> status c = Active) (map snd (sessions s))"

text \<open>
  \<open>updateSessionContext\<close>: \<open>update_context\<close> is what the body does to the object it finds;
  with no session under the id nothing changes.
\<close>

definition update_context :: "sessionContext \<Rightarrow> jsrecord \<Rightarrow> env \<Rightarrow> sessionContext" where
  "update_context context updates e =
     context\<lparr> user_inputs := object_assign (user_inputs context) updates,
              updated_at := clock e 4 \<rparr>"

definition updateSessionContext :: "sarufi \<Rightarrow> string \<Rightarrow> jsrecord \<Rightarrow> env \<Rightarrow> sarufi" where
  "updateSessionContext s sessionId updates e =
     (case map_of (sessions s) sessionId of
        None \<Rightarrow> s
      | Some context \<Rightarrow>
          s\<lparr> sessions := AList.update sessionId (update_context context updates e) (sessions s) \<rparr>)"

definition endSession :: "sarufi \<Rightarrow> string \<Rightarrow> env \<Rightarrow> bool \<times> sarufi" where
  "endSession s sessionId e =
     (case map_of (sessions s) sessionId of
        None \<Rightarrow> (False, s)
      | Some context \<Rightarrow>
          (let context1 = context\<lparr> status := Completed, updated_at := clock e 0 \<rparr>;
               st = sessionStats s
           in (True,
               s\<lparr> sessions := AList.update sessionId context1 (sessions s),
                  sessionStats := st\<lparr>
                    activeSessions := activeSessions st - 1,
                    completedSessions := completedSessions st + 1,
                    totalSessionDuration :=
                      totalSessionDuration st + (updated_at context1 - created_at context1) \<rparr> \<rparr>)))"

definition getSarufiSession :: "sarufi \<Rightarrow> string \<Rightarrow> sessionContext option" where
  "getSarufiSession s sessionId = map_of (sessions s) sessionId"

record session =
  started_session_id :: string
  initial_message :: string
  session_context :: sessionContext

text \<open>
  \<open>startSession\<close>. The awaited \<open>processPrompt\<close> always fulfils, its whole body being
  inside its own \<open>try\<close>. The local \<open>context\<close> is the object stored under the new id:
  each mutation is written back to the store where the source mutates it.
\<close>

definition startSession ::
  "sarufi \<Rightarrow> string \<Rightarrow> string \<Rightarrow> jsrecord option \<Rightarrow> env \<Rightarrow> (sarufi_error + session) \<times> sarufi" where
  "startSession s userId strategyName initialContext e =
     (case map_of (strategies s) strategyName of
        None \<Rightarrow> (Inl (StrategyNotFound strategyName), s)
      | Some strategy \<Rightarrow>
          (case map_of (agents s) strategyName of
             None \<Rightarrow> (Inl (AgentNotFound strategyName), s)
           | Some agent \<Rightarrow>
               (let s0 = (case findSessionByUser s userId of
                            None \<Rightarrow> s
                          | Some existingSession \<Rightarrow> snd (endSession s (session_id existingSession) e));
                    sessionId = gen_session_id e;
                    context = \<lparr>
                      session_id = sessionId,
                      user_id = userId,
                      strategy_name = strategyName,
                      status = Active,
                      current_goal = ''initial_engagement'',
                      messages_count = 0,
                      user_inputs = (case initialContext of None \<Rightarrow> [] | Some r \<Rightarrow> r),
                      user_profile = \<lparr> detected_intent = None, sentiment = None, expertise_level = None \<rparr>,
                      messages = [],
                      agent_memory = \<lparr> last_action = ''session_started'', reasoning_history = [],
                                       failed_attempts = [], successful_patterns = [] \<rparr>,
                      created_at = clock e 1,
                      updated_at = clock e 2 \<rparr>;
                    s1 = s0\<lparr> sessions := AList.update sessionId context (sessions s0),
                             sessionStats := (sessionStats s0)\<lparr>
                               totalSessions := totalSessions (sessionStats s0) + 1,
                               activeSessions := activeSessions (sessionStats s0) + 1 \<rparr> \<rparr>;
                    initialResponse = processPrompt agent ''[SESSION_STARTED]'' context e;
                    context1 = context\<lparr> messages := messages context @
                      [\<lparr> msg_id = gen_message_id e 0, msg_role = Assistant,
                         msg_content = message initialResponse, msg_timestamp = clock e 3 \<rparr>] \<rparr>;
                    s2 = s1\<lparr> sessions := AList.update sessionId context1 (sessions s1) \<rparr>;
                    s3 = updateSessionContext s2 sessionId (context_updates initialResponse) e
                in (Inr \<lparr> started_session_id = sessionId,
                          initial_message = message initialResponse,
                          session_context = update_context context1 (context_updates initialResponse) e \<rparr>,
                    s3))))"

record sarufi_output =
  out_message :: string
  out_session_id :: string
  agent_reasoning :: "string option"
  suggested_actions :: "string list option"
  session_status :: status

text \<open>
  The promise of \<open>processPrompt\<close> as \<open>sendMessage\<close> awaits it inside its \<open>try\<close>:
  \<open>Inl\<close> would be a rejection, which the \<open>catch\<close> of \<open>sendMessage\<close> handles. The promise
  always fulfils.
\<close>

definition processPrompt_promise ::
  "agent \<Rightarrow> string \<Rightarrow> sessionContext \<Rightarrow> env \<Rightarrow> thrown + agentResponse" where
  "processPrompt_promise a prompt context e = Inr (processPrompt a prompt context e)"

text \<open>\<open>error instanceof Error ? error.message : 'Unknown error'\<close>\<close>

definition catch_message :: "thrown \<Rightarrow> string" where
  "catch_message t = (case t of Err m \<Rightarrow> m | NonError \<Rightarrow> ''Unknown error'')"

definition should_escalate :: "agentResponse \<Rightarrow> bool" where
  "should_escalate r = (case response_meta r of None \<Rightarrow> False | Some m \<Rightarrow> rm_should_escalate m)"

text \<open>
  \<open>sendMessage\<close>. \<open>context.status\<close>, read for the output, is what the escalation branch
  left: nothing else in the call writes it.
\<close>

definition sendMessage ::
  "sarufi \<Rightarrow> string \<Rightarrow> string \<Rightarrow> env \<Rightarrow> (sarufi_error + sarufi_output) \<times> sarufi" where
  "sendMessage s sessionId msg e =
     (case map_of (sessions s) sessionId of
        None \<Rightarrow> (Inl (SessionNotFound sessionId), s)
      | Some context \<Rightarrow>
          if status context \<noteq> Active then (Inl (SessionNotActive sessionId), s)
          else
            (case map_of (agents s) (strategy_name context) of
               None \<Rightarrow> (Inl (AgentNotFound (strategy_name context)), s)
             | Some agent \<Rightarrow>
                 (let context1 = context\<lparr>
                        messages := messages context @
                          [\<lparr> msg_id = gen_message_id e 1, msg_role = User,
                             msg_content = msg, msg_timestamp = clock e 5 \<rparr>],
                        messages_count := messages_count context + 1 \<rparr>;
                      s1 = s\<lparr> sessions := AList.update sessionId context1 (sessions s),
                              sessionStats := (sessionStats s)\<lparr>
                                totalMessages := totalMessages (sessionStats s) + 1 \<rparr> \<rparr>
                  in (case processPrompt_promise agent msg context1 e of
                        Inl error \<Rightarrow>
                          (Inr \<lparr> out_message = ''I'm sorry, I encountered an issue. Could you please try again?'',
                                 out_session_id = sessionId,
                                 agent_reasoning = Some (''Error: '' @ catch_message error),
                                 suggested_actions = None,
                                 session_status = Active \<rparr>,
                           s1\<lparr> sessionStats := (sessionStats s1)\<lparr>
                                 errorCount := errorCount (sessionStats s1) + 1 \<rparr> \<rparr>)
                      | Inr agentResponse \<Rightarrow>
                          (let context2 = context1\<lparr>
                                 messages := messages context1 @
                                   [\<lparr> msg_id = gen_message_id e 2, msg_role = Assistant,
                                      msg_content = message agentResponse, msg_timestamp = clock e 6 \<rparr>],
                                 messages_count := messages_count context1 + 1 \<rparr>;
                               s2 = s1\<lparr> sessions := AList.update sessionId context2 (sessions s1) \<rparr>;
                               s3 = updateSessionContext s2 sessionId (context_updates agentResponse) e;
                               s4 = (if should_escalate agentResponse
                                     then s3\<lparr> sessions := AList.map_entry sessionId
                                                  (\<lambda>c. c\<lparr> status := Escalated \<rparr>) (sessions s3),
                                              sessionStats := (sessionStats s3)\<lparr>
                                                activeSessions := activeSessions (sessionStats s3) - 1 \<rparr> \<rparr>
                                     else s3)
                           in (Inr \<lparr> out_message = message agentResponse,
                                     out_session_id = sessionId,
                                     agent_reasoning = Some (reasoning agentResponse),
                                     suggested_actions =
                                       (case suggested_next_user_action agentResponse of
                                          None \<Rightarrow> None
                                        | Some a \<Rightarrow> if a = [] then None else Some [a]),
                                     session_status =
                                       (if should_escalate agentResponse then Escalated
                                        else status context2) \<rparr>,
                               s4))))))"

subsection \<open>Strategy performance\<close>

text \<open>
  The result of a JavaScript division: a finite quotient, an infinity, or \<open>NaN\<close> for
  \<open>0 / 0\<close>. \<open>x || 0\<close> replaces the falsy numbers, \<open>NaN\<close> and zero, by \<open>0\<close>.
\<close>

definition js_divide :: "rat \<Rightarrow> rat \<Rightarrow> jsnum" where
  "js_divide a b =
     (if b = 0 then (if a = 0 then NaN else if a > 0 then PosInfinity else NegInfinity)
      else Finite (a / b))"

definition or_zero :: "jsnum \<Rightarrow> jsnum" where
  "or_zero x = (case x of NaN \<Rightarrow> Finite 0 | Finite r \<Rightarrow> Finite r
                | PosInfinity \<Rightarrow> PosInfinity | NegInfinity \<Rightarrow> NegInfinity)"

definition score_session :: "sessionContext \<Rightarrow> rat \<Rightarrow> rat" where
  "score_session sess score =
     (let score1 = (if status sess = Completed then score + 1 else score);
          score2 = (if map_of (user_inputs sess) ''decision_quality'' = Some (JStr ''high'')
                    then score1 + 1 / 2 else score1);
          score3 = (if map_of (user_inputs sess) ''user_sentiment'' = Some (JStr ''positive'')
                    then score2 + 3 / 10 else score2);
          score4 = (if status sess = Escalated then score3 - 1 / 2 else score3)
      in score4)"

definition calculatePerformanceScore :: "sessionContext list \<Rightarrow> rat" where
  "calculatePerformanceScore sessionList =
     (if length sessionList = 0 then 0
      else (let score = fold score_session sessionList 0
            in max 0 (min 1 (score / of_nat (length sessionList)))))"

record performance =
  perf_strategy_name :: string
  total_sessions :: nat
  completion_rate :: rat
  escalation_rate :: rat
  average_messages :: jsnum
  performance_score :: rat

definition getStrategyPerformance :: "sarufi \<Rightarrow> string \<Rightarrow> performance" where
  "getStrategyPerformance s strategyName =
     (let sessionList = filter (\<lambda>c. strategy_name c = strategyName) (map snd (sessions s));
          totalSessions = length sessionList;
          completedSessions = length (filter (\<lambda>c. status c = Completed) sessionList);
          escalatedSessions = length (filter (\<lambda>c. status c = Escalated) sessionList);
          averageMessages =
            js_divide (of_int (fold (\<lambda>c sum. sum + messages_count c) sessionList 0))
                      (of_nat totalSessions)
      in \<lparr> perf_strategy_name = strategyName,
           total_sessions = totalSessions,
           completion_rate =
             (if totalSessions > 0 then of_nat completedSessions / of_nat totalSessions else 0),
           escalation_rate =
             (if totalSessions > 0 then of_nat escalatedSessions / of_nat totalSessions else 0),
           average_messages = or_zero averageMessages,
           performance_score = calculatePerformanceScore sessionList \<rparr>)"

subsection \<open>Sequences of calls\<close>

text \<open>
  The states an instance can be in: those a finite sequence of calls, one after the
  other, leads to from a new instance, whatever the oracle, the clock and the id
  generators return in each call.
\<close>

datatype api_call =
    RegisterStrategy engine strategy
  | UnregisterStrategy string
  | StartSession string string "jsrecord option" env
  | SendMessage string string env
  | EndSession string env

fun perform :: "api_call \<Rightarrow> sarufi \<Rightarrow> sarufi" where
  "perform (RegisterStrategy E strategy) s = snd (registerStrategy E s strategy)"
| "perform (UnregisterStrategy n) s = snd (unregisterStrategy s n)"
| "perform (StartSession userId strategyName initialContext e) s =
     snd (startSession s userId strategyName initialContext e)"
| "perform (SendMessage sessionId msg e) s = snd (sendMessage s sessionId msg e)"
| "perform (EndSession sessionId e) s = snd (endSession s sessionId e)"

definition run :: "api_call list \<Rightarrow> sarufi" where
  "run calls = fold perform calls new_Sarufi"

definition active_sessions_of :: "sarufi \<Rightarrow> string \<Rightarrow> sessionContext list" where
  "active_sessions_of s userId =
     filter (\<lambda>c. user_id c = userId \<and> status c = Active) (map snd (sessions s))"

section \<open>Example inputs\<close>

definition example_decision ::
  "string list \<Rightarrow> string list \<Rightarrow> string \<Rightarrow> rat \<Rightarrow> jsrecord \<Rightarrow> bool \<Rightarrow> decision" where
  "example_decision rules opps why conf own escalate =
     \<lparr> strategy_analysis = \<lparr> sa_current_goal = ''qualify'', sa_goal_progress = ''in_progress'',
         sa_situation_assessment = ''price sensitive'', sa_relevant_guidelines = rules,
         sa_opportunities = opps, sa_risk_factors = [] \<rparr>,
       flow_decision = \<lparr> fd_next_action = ''build_value'', fd_reasoning = why,
         fd_confidence = conf, fd_urgency = ''medium'', fd_backup_plan = ''offer demo'' \<rparr>,
       action_execution = \<lparr> ae_message = ''Hello'', ae_message_intent = ''greet'',
         ae_expected_user_response = ''reply'', ae_context_updates = own,
         ae_next_goal = ''close'' \<rparr>,
       meta = \<lparr> dm_session_stage = ''discovery'', dm_user_sentiment = ''neutral'',
         dm_should_escalate = escalate, dm_escalation_reason = None \<rparr> \<rparr>"


definition example_strategy :: strategy where
  "example_strategy =
     \<lparr> name = ''bot'', domain = ''sales'', primary_goal = ''close deals'', secondary_goals = [],
       llm_provider = ''google'', model = ''gemini-2.5-flash'',
       personality = Some \<lparr> tone = ''friendly'', style = ''consultative'', pace = ''medium'' \<rparr>,
       system_prompt = None,
       guidelines = Some \<lparr> must_do = [], must_not_do = [], prefer_to_do = [], avoid_doing = [] \<rparr>,
       knowledge = \<lparr> key_info = [], common_questions = [], escalation_triggers = [] \<rparr> \<rparr>"

text \<open>
  An engine for the examples. Of the properties that a plain object inherits, calling
  \<open>__proto__\<close>, \<open>__defineGetter__\<close> and \<open>__defineSetter__\<close> without arguments throws
  and calling any other returns a value that is no model. The examples reach neither
  the members of the inherited values nor the text of a large number.
\<close>

definition example_engine :: engine where
  "example_engine =
     \<lparr> large_number_text = number_str,
       inherited_call = (\<lambda>n.
         if n \<in> set [''__proto__'', ''__defineGetter__'', ''__defineSetter__'']
         then Some (Inl (Err ''not a function''))
         else if n \<in> set [''constructor'', ''hasOwnProperty'', ''isPrototypeOf'',
                   ''propertyIsEnumerable'', ''toString'', ''toLocaleString'', ''valueOf'',
                   ''__lookupGetter__'', ''__lookupSetter__'']
         then Some (Inr NotAModel)
         else None),
       builtin_call = (\<lambda>b n. None),
       type_error = Err ''not a function'' \<rparr>"

text \<open>An environment whose oracle answers with one \<open>answer\<close> call, and one whose oracle throws.\<close>

definition example_env :: "string \<Rightarrow> env" where
  "example_env sid =
     \<lparr> oracle_outcome = Returns [\<lparr> toolName = ''answer'',
          tool_input = Wellformed (example_decision [] [] ''why'' (1 / 2) [] False) \<rparr>],
       clock = (\<lambda>k. 1000), iso_clock = (\<lambda>k. ''2025-07-25T00:00:01.000Z''),
       gen_message_id = (\<lambda>k. ''msg''), gen_session_id = sid,
       engine = example_engine \<rparr>"

definition failing_env :: env where
  "failing_env = (example_env ''s9'')\<lparr> oracle_outcome := Throws (Err ''timeout'') \<rparr>"

definition example_context :: sessionContext where
  "example_context =
     \<lparr> session_id = ''s1'', user_id = ''user-1'', strategy_name = ''bot'', status = Active,
       current_goal = ''initial_engagement'', messages_count = 0, user_inputs = [],
       user_profile = \<lparr> detected_intent = None, sentiment = None, expertise_level = None \<rparr>,
       messages = [],
       agent_memory = \<lparr> last_action = ''session_started'', reasoning_history = [],
                        failed_attempts = [], successful_patterns = [] \<rparr>,
       created_at = 1000, updated_at = 1000 \<rparr>"

text \<open>A new instance after \<open>registerStrategy\<close>, and after \<open>startSession\<close> for one user.\<close>

definition registered :: sarufi where
  "registered = snd (registerStrategy example_engine new_Sarufi example_strategy)"

definition started :: sarufi where
  "started = snd (startSession registered ''user-1'' ''bot'' None (example_env ''s1''))"

text \<open>The context that this \<open>startSession\<close> stores, and the instance after ending it.\<close>

definition started_context :: sessionContext where
  "started_context =
     update_context
       (example_context\<lparr> messages :=
          [\<lparr> msg_id = ''msg'', msg_role = Assistant, msg_content = ''Hello'', msg_timestamp = 1000 \<rparr>] \<rparr>)
       (context_updates (interpretDecision (example_decision [] [] ''why'' (1 / 2) [] False)
          ''[SESSION_STARTED]'' example_context (example_env ''s1'')))
       (example_env ''s1'')"

definition ended :: sarufi where
  "ended = snd (endSession started ''s1'' (example_env ''s1''))"

text \<open>The value of one key of the \<open>user_inputs\<close> of a stored session.\<close>

definition stored_input :: "sarufi \<Rightarrow> string \<Rightarrow> string \<Rightarrow> jsval option" where
  "stored_input s sessionId k =
     (case map_of (sessions s) sessionId of None \<Rightarrow> None | Some c \<Rightarrow> map_of (user_inputs c) k)"

section \<open>The invariant of the session store\<close>

text \<open>
  The keys are distinct, each session is stored under its own id, and no user has
  more than one active session.
\<close>

definition sessions_ok :: "(string \<times> sessionContext) list \<Rightarrow> bool" where
  "sessions_ok al \<longleftrightarrow>
     distinct (map fst al)
     \<and> (\<forall>(k, c) \<in> set al. session_id c = k)
     \<and> (\<forall>u. length (filter (\<lambda>c. user_id c = u \<and> status c = Active) (map snd al)) \<le> 1)"

section \<open>Properties of the decision interpreter\<close>


lemma map_of_object_assign:
  "map_of (object_assign target source) = map_of target ++ map_of (rev source)"
  unfolding object_assign_def
  by (induction source arbitrary: target)
     (auto simp: update_conv' map_add_def fun_eq_iff split: option.splits)

lemma map_of_rev_distinct: "distinct (map fst xs) \<Longrightarrow> map_of (rev xs) = map_of xs"
proof (induction xs)
  case Nil
  then show ?case by simp
next
  case (Cons p xs)
  obtain k v where p: "p = (k, v)" by (cases p)
  from Cons.prems p have notin: "k \<notin> fst ` set xs" and d: "distinct (map fst xs)" by auto
  have "map_of (rev (p # xs)) = map_of [(k, v)] ++ map_of (rev xs)"
    by (simp add: p map_of_append)
  also have "\<dots> = map_of [(k, v)] ++ map_of xs" using Cons.IH d by simp
  also have "\<dots> = map_of (p # xs)"
  proof -
    have "map_of xs k = None" using notin by (simp add: map_of_eq_None_iff)
    then show ?thesis by (auto simp: p fun_eq_iff map_add_def split: option.splits)
  qed
  finally show ?case .
qed

lemma distinct_derived_updates: "distinct (map fst (derived_updates d prompt ctx e))"
  by (simp add: derived_updates_def)

lemma lookup_object_assign_distinct:
  "distinct (map fst source) \<Longrightarrow>
   map_of (object_assign target source) k =
     (case map_of source k of None \<Rightarrow> map_of target k | Some v \<Rightarrow> Some v)"
  by (simp add: map_of_object_assign map_of_rev_distinct map_add_def)

text \<open>
  C4. The quality score is the sum of the four weights whose condition holds (0.3 for a
  cited guideline, 0.3 for a confidence above 0.7, 0.2 for an opportunity or a risk, 0.2
  for a reasoning text of more than 20 characters), and the tier is \<open>high\<close> exactly from
  0.8 on, \<open>medium\<close> exactly from 0.5 up to 0.8, \<open>low\<close> exactly below 0.5.
\<close>

theorem quality_score_formula:
  "qualityScore d =
       (if sa_relevant_guidelines (strategy_analysis d) \<noteq> [] then 3 / 10 else 0)
     + (if fd_confidence (flow_decision d) > 7 / 10 then 3 / 10 else 0)
     + (if sa_opportunities (strategy_analysis d) \<noteq> [] \<or> sa_risk_factors (strategy_analysis d) \<noteq> []
        then 2 / 10 else 0)
     + (if length (fd_reasoning (flow_decision d)) > 20 then 2 / 10 else 0)
   \<and> (evaluateDecisionQuality d = High \<longleftrightarrow> qualityScore d \<ge> 8 / 10)
   \<and> (evaluateDecisionQuality d = Medium \<longleftrightarrow> 5 / 10 \<le> qualityScore d \<and> qualityScore d < 8 / 10)
   \<and> (evaluateDecisionQuality d = Low \<longleftrightarrow> qualityScore d < 5 / 10)"
proof (intro conjI)
  show "qualityScore d =
       (if sa_relevant_guidelines (strategy_analysis d) \<noteq> [] then 3 / 10 else 0)
     + (if fd_confidence (flow_decision d) > 7 / 10 then 3 / 10 else 0)
     + (if sa_opportunities (strategy_analysis d) \<noteq> [] \<or> sa_risk_factors (strategy_analysis d) \<noteq> []
        then 2 / 10 else 0)
     + (if length (fd_reasoning (flow_decision d)) > 20 then 2 / 10 else 0)"
    by (simp add: qualityScore_def Let_def)
  show "evaluateDecisionQuality d = High \<longleftrightarrow> qualityScore d \<ge> 8 / 10"
    by (simp add: evaluateDecisionQuality_def Let_def)
  show "evaluateDecisionQuality d = Medium \<longleftrightarrow> 5 / 10 \<le> qualityScore d \<and> qualityScore d < 8 / 10"
    by (auto simp add: evaluateDecisionQuality_def Let_def)
  show "evaluateDecisionQuality d = Low \<longleftrightarrow> qualityScore d < 5 / 10"
    by (auto simp add: evaluateDecisionQuality_def Let_def)
qed

text \<open>
  The two decisions of the specification: reasoning of 25 characters, confidence 0.9, one
  rule and one opportunity score 1.0, \<open>high\<close>; confidence 0.5, no rule, no opportunity or
  risk and a reasoning of 5 characters score 0, \<open>low\<close>.
\<close>

theorem quality_score_formula_witness:
  "qualityScore (example_decision [''rule''] [''upsell''] ''1234567890123456789012345'' (9 / 10) [] False) = 1
   \<and> evaluateDecisionQuality
        (example_decision [''rule''] [''upsell''] ''1234567890123456789012345'' (9 / 10) [] False) = High
   \<and> qualityScore (example_decision [] [] ''short'' (5 / 10) [] False) = 0
   \<and> evaluateDecisionQuality (example_decision [] [] ''short'' (5 / 10) [] False) = Low"
  using quality_score_formula
          [of "example_decision [''rule''] [''upsell''] ''1234567890123456789012345'' (9 / 10) [] False"]
        quality_score_formula [of "example_decision [] [] ''short'' (5 / 10) [] False"]
  by (simp add: example_decision_def)



















text \<open>
  C3. In the context updates of the interpreter's response every derived key has its
  derived value, whatever the decision's own \<open>context_updates\<close> hold under that key
  (so for \<open>current_goal\<close>, \<open>previous_goal\<close>, \<open>session_stage\<close> and \<open>user_sentiment\<close>);
  every other key has the value the decision gave it.
\<close>

theorem derived_keys_override:
  "(k \<in> fst ` set (derived_updates d prompt ctx e) \<longrightarrow>
      map_of (context_updates (interpretDecision d prompt ctx e)) k
        = map_of (derived_updates d prompt ctx e) k)
   \<and> (k \<notin> fst ` set (derived_updates d prompt ctx e) \<longrightarrow>
      map_of (context_updates (interpretDecision d prompt ctx e)) k
        = map_of (ae_context_updates (action_execution d)) k)
   \<and> map_of (context_updates (interpretDecision d prompt ctx e)) ''current_goal''
        = Some (JStr (ae_next_goal (action_execution d)))
   \<and> map_of (context_updates (interpretDecision d prompt ctx e)) ''previous_goal''
        = Some (JStr (current_goal ctx))
   \<and> map_of (context_updates (interpretDecision d prompt ctx e)) ''session_stage''
        = Some (JStr (dm_session_stage (meta d)))
   \<and> map_of (context_updates (interpretDecision d prompt ctx e)) ''user_sentiment''
        = Some (JStr (dm_user_sentiment (meta d)))"
proof -
  let ?own = "ae_context_updates (action_execution d)"
  let ?fixed = "derived_updates d prompt ctx e"
  have cu: "context_updates (interpretDecision d prompt ctx e) = object_assign ?own ?fixed"
    by (simp add: interpretDecision_def Let_def)
  have look: "map_of (object_assign ?own ?fixed) j =
      (case map_of ?fixed j of None \<Rightarrow> map_of ?own j | Some v \<Rightarrow> Some v)" for j
    by (rule lookup_object_assign_distinct) (rule distinct_derived_updates)
  have a: "k \<in> fst ` set ?fixed \<longrightarrow> map_of (object_assign ?own ?fixed) k = map_of ?fixed k"
  proof
    assume "k \<in> fst ` set ?fixed"
    then obtain v where "map_of ?fixed k = Some v"
      by (metis map_of_eq_None_iff not_Some_eq)
    then show "map_of (object_assign ?own ?fixed) k = map_of ?fixed k"
      by (simp add: look)
  qed
  have b: "k \<notin> fst ` set ?fixed \<longrightarrow> map_of (object_assign ?own ?fixed) k = map_of ?own k"
  proof
    assume "k \<notin> fst ` set ?fixed"
    then have "map_of ?fixed k = None" by (simp add: map_of_eq_None_iff)
    then show "map_of (object_assign ?own ?fixed) k = map_of ?own k"
      by (simp add: look)
  qed
  have c: "map_of ?fixed ''current_goal'' = Some (JStr (ae_next_goal (action_execution d)))"
    "map_of ?fixed ''previous_goal'' = Some (JStr (current_goal ctx))"
    "map_of ?fixed ''session_stage'' = Some (JStr (dm_session_stage (meta d)))"
    "map_of ?fixed ''user_sentiment'' = Some (JStr (dm_user_sentiment (meta d)))"
    by (simp_all add: derived_updates_def)
  show ?thesis
    unfolding cu using a b by (simp add: look c)
qed

text \<open>
  A decision whose own updates try to set \<open>current_goal\<close>: the derived value
  \<open>next_goal\<close> is what the response carries, and the decision's \<open>budget\<close> is kept.
\<close>

theorem derived_keys_override_witness:
  "''current_goal'' \<in> fst ` set (derived_updates
      (example_decision [] [] ''why'' (1 / 2) [(''current_goal'', JStr ''hijacked''), (''budget'', JNum 500)] False)
      ''hi'' example_context (example_env ''s1''))
   \<and> ''budget'' \<notin> fst ` set (derived_updates
      (example_decision [] [] ''why'' (1 / 2) [(''current_goal'', JStr ''hijacked''), (''budget'', JNum 500)] False)
      ''hi'' example_context (example_env ''s1''))
   \<and> map_of (context_updates (interpretDecision
      (example_decision [] [] ''why'' (1 / 2) [(''current_goal'', JStr ''hijacked''), (''budget'', JNum 500)] False)
      ''hi'' example_context (example_env ''s1''))) ''current_goal'' = Some (JStr ''close'')
   \<and> map_of (context_updates (interpretDecision
      (example_decision [] [] ''why'' (1 / 2) [(''current_goal'', JStr ''hijacked''), (''budget'', JNum 500)] False)
      ''hi'' example_context (example_env ''s1''))) ''budget'' = Some (JNum 500)"
  using derived_keys_override [of "''current_goal''"
      "example_decision [] [] ''why'' (1 / 2) [(''current_goal'', JStr ''hijacked''), (''budget'', JNum 500)] False"
      "''hi''" example_context "example_env ''s1''"]
    derived_keys_override [of "''budget''"
      "example_decision [] [] ''why'' (1 / 2) [(''current_goal'', JStr ''hijacked''), (''budget'', JNum 500)] False"
      "''hi''" example_context "example_env ''s1''"]
  by (simp add: example_decision_def derived_updates_def)

section \<open>The example inputs, evaluated\<close>

lemma example_model:
  "getLanguageModel example_engine example_strategy = Inr (GoogleModel ''gemini-2.5-flash'')"
  by (simp add: getLanguageModel_def MODEL_CONFIGS_get_def member_def google_models_def
      example_strategy_def Let_def)

lemma proto_model:
  "getLanguageModel example_engine (example_strategy\<lparr> model := ''__proto__'' \<rparr>)
     = Inl (Err ''not a function'')"
  by (simp add: getLanguageModel_def MODEL_CONFIGS_get_def member_def google_models_def
      example_strategy_def example_engine_def Let_def)

lemma registered_eq:
  "registered = \<lparr> strategies = [(''bot'', example_strategy)], sessions = [],
      agents = [(''bot'', \<lparr> agent_strategy = example_strategy \<rparr>)],
      sessionStats = \<lparr> totalSessions = 0, activeSessions = 0, completedSessions = 0,
                        totalMessages = 0, totalSessionDuration = 0, errorCount = 0 \<rparr> \<rparr>"
  by (simp add: registered_def registerStrategy_def validateStrategy_def new_Sarufi_def
      example_model new_Agent_def Let_def)
     (simp add: example_strategy_def)

lemma example_answer:
  "processPrompt a prompt c (example_env sid) =
     interpretDecision (example_decision [] [] ''why'' (1 / 2) [] False) prompt c (example_env sid)"
  by (simp add: processPrompt_def processPrompt_try_def example_env_def)

lemma example_env_fields:
  "clock (example_env sid) k = 1000"
  "gen_message_id (example_env sid) k = ''msg''"
  "gen_session_id (example_env sid) = sid"
  by (simp_all add: example_env_def)

lemma example_message:
  "message (interpretDecision (example_decision [] [] ''why'' (1 / 2) [] False) p c e) = ''Hello''"
  by (simp add: interpretDecision_def Let_def example_decision_def)

lemma started_eq:
  "started = \<lparr> strategies = [(''bot'', example_strategy)],
      sessions = [(''s1'', started_context)],
      agents = [(''bot'', \<lparr> agent_strategy = example_strategy \<rparr>)],
      sessionStats = \<lparr> totalSessions = 1, activeSessions = 1, completedSessions = 0,
                        totalMessages = 0, totalSessionDuration = 0, errorCount = 0 \<rparr> \<rparr>"
  by (simp add: started_def registered_eq startSession_def findSessionByUser_def Let_def
      updateSessionContext_def example_answer example_env_fields started_context_def
      example_context_def example_message)

lemma started_context_fields:
  "status started_context = Active"
  "strategy_name started_context = ''bot''"
  "user_id started_context = ''user-1''"
  "session_id started_context = ''s1''"
  "messages_count started_context = 0"
  "created_at started_context = 1000"
  "messages started_context =
     [\<lparr> msg_id = ''msg'', msg_role = Assistant, msg_content = ''Hello'', msg_timestamp = 1000 \<rparr>]"
  by (simp_all add: started_context_def update_context_def example_context_def)

lemma ended_eq:
  "ended = \<lparr> strategies = [(''bot'', example_strategy)],
      sessions = [(''s1'', started_context\<lparr> status := Completed, updated_at := 1000 \<rparr>)],
      agents = [(''bot'', \<lparr> agent_strategy = example_strategy \<rparr>)],
      sessionStats = \<lparr> totalSessions = 1, activeSessions = 0, completedSessions = 1,
                        totalMessages = 0, totalSessionDuration = 0, errorCount = 0 \<rparr> \<rparr>"
  by (simp add: ended_def started_eq endSession_def Let_def example_env_fields started_context_fields)

lemma failing_turn:
  "processPrompt a prompt c failing_env = generateFallbackResponse (Err ''timeout'') failing_env"
  by (simp add: processPrompt_def processPrompt_try_def failing_env_def)

section \<open>Properties of the strategy registry\<close>

text \<open>
  C9. After \<open>registerStrategy\<close> of a strategy that passes validation, \<open>getStrategy\<close> with
  its name returns that strategy: the strategy is stored before the agent is built, so
  this holds when the call returns, which it does whenever \<open>getLanguageModel\<close> returns
  a model, and also when the constructor of the agent throws. After
  \<open>unregisterStrategy\<close> of a name, \<open>getStrategy\<close> with that name returns nothing.
\<close>

theorem register_get_unregister:
  "(validateStrategy st = None \<longrightarrow>
      getStrategy (snd (registerStrategy E s st)) (name st) = Some st
      \<and> (fst (registerStrategy E s st) = Inr ()
          \<or> (\<exists>t. getLanguageModel E st = Inl t \<and> fst (registerStrategy E s st) = Inl (Uncaught t)))
      \<and> ((\<exists>m. getLanguageModel E st = Inr m) \<longrightarrow> fst (registerStrategy E s st) = Inr ()))
   \<and> getStrategy (snd (unregisterStrategy s n)) n = None"
proof (intro conjI impI)
  assume v: "validateStrategy st = None"
  then have nm: "name st \<noteq> []" by (auto simp add: validateStrategy_def split: if_splits)
  show "getStrategy (snd (registerStrategy E s st)) (name st) = Some st"
    using v nm
    by (simp add: registerStrategy_def getStrategy_def new_Agent_def Let_def update_conv'
        split: sum.splits)
  show "fst (registerStrategy E s st) = Inr ()
      \<or> (\<exists>t. getLanguageModel E st = Inl t \<and> fst (registerStrategy E s st) = Inl (Uncaught t))"
    using v nm
    by (cases "getLanguageModel E st") (simp_all add: registerStrategy_def new_Agent_def Let_def)
next
  assume v: "validateStrategy st = None" and m: "\<exists>m. getLanguageModel E st = Inr m"
  from v have nm: "name st \<noteq> []" by (auto simp add: validateStrategy_def split: if_splits)
  from m obtain x where "getLanguageModel E st = Inr x" ..
  then show "fst (registerStrategy E s st) = Inr ()"
    using v nm by (simp add: registerStrategy_def new_Agent_def Let_def)
next
  show "getStrategy (snd (unregisterStrategy s n)) n = None"
    by (simp add: getStrategy_def unregisterStrategy_def delete_conv' Let_def)
qed

text \<open>
  The example strategy is registered and read back; with the model name \<open>__proto__\<close>
  the constructor of the agent throws and the strategy is read back all the same.
\<close>

theorem register_get_unregister_witness:
  "validateStrategy example_strategy = None
   \<and> fst (registerStrategy example_engine new_Sarufi example_strategy) = Inr ()
   \<and> getStrategy (snd (registerStrategy example_engine new_Sarufi example_strategy)) ''bot''
        = Some example_strategy
   \<and> getStrategy (snd (unregisterStrategy
        (snd (registerStrategy example_engine new_Sarufi example_strategy)) ''bot'')) ''bot'' = None
   \<and> validateStrategy (example_strategy\<lparr> model := ''__proto__'' \<rparr>) = None
   \<and> fst (registerStrategy example_engine new_Sarufi (example_strategy\<lparr> model := ''__proto__'' \<rparr>))
        = Inl (Uncaught (Err ''not a function''))
   \<and> getStrategy (snd (registerStrategy example_engine new_Sarufi
        (example_strategy\<lparr> model := ''__proto__'' \<rparr>))) ''bot''
        = Some (example_strategy\<lparr> model := ''__proto__'' \<rparr>)"
proof -
  have v: "validateStrategy example_strategy = None"
    "validateStrategy (example_strategy\<lparr> model := ''__proto__'' \<rparr>) = None"
    by (simp_all add: validateStrategy_def example_strategy_def)
  have n: "name example_strategy = ''bot''"
    "name (example_strategy\<lparr> model := ''__proto__'' \<rparr>) = ''bot''"
    by (simp_all add: example_strategy_def)
  have t: "fst (registerStrategy example_engine new_Sarufi (example_strategy\<lparr> model := ''__proto__'' \<rparr>))
      = Inl (Uncaught (Err ''not a function''))"
    using v n by (simp add: registerStrategy_def new_Agent_def proto_model Let_def)
  show ?thesis
    using register_get_unregister [of example_strategy example_engine new_Sarufi "''bot''"]
      register_get_unregister [of example_strategy example_engine
        "snd (registerStrategy example_engine new_Sarufi example_strategy)" "''bot''"]
      register_get_unregister [of "example_strategy\<lparr> model := ''__proto__'' \<rparr>" example_engine
        new_Sarufi "''bot''"]
      v n t example_model proto_model
    by simp
qed

section \<open>Properties of the session lifecycle\<close>

subsection \<open>Rejected messages\<close>

text \<open>
  C6. \<open>sendMessage\<close> with an id under which no session is stored fails with
  \<open>SessionNotFound\<close>, and with the id of a session whose status is not \<open>active\<close> it
  fails with \<open>SessionNotActive\<close>; in both cases the instance after the call is the
  instance before it, counters and sessions alike. So it is whenever the call throws.
\<close>

theorem sendMessage_rejected_unchanged:
  "(map_of (sessions s) sessionId = None \<longrightarrow>
      sendMessage s sessionId msg e = (Inl (SessionNotFound sessionId), s))
   \<and> (map_of (sessions s) sessionId = Some context \<and> status context \<noteq> Active \<longrightarrow>
      sendMessage s sessionId msg e = (Inl (SessionNotActive sessionId), s))
   \<and> (fst (sendMessage s sessionId msg e) = Inl err \<longrightarrow> snd (sendMessage s sessionId msg e) = s)"
proof (intro conjI impI)
  assume "map_of (sessions s) sessionId = None"
  then show "sendMessage s sessionId msg e = (Inl (SessionNotFound sessionId), s)"
    by (simp add: sendMessage_def)
next
  assume "map_of (sessions s) sessionId = Some context \<and> status context \<noteq> Active"
  then show "sendMessage s sessionId msg e = (Inl (SessionNotActive sessionId), s)"
    by (simp add: sendMessage_def)
next
  assume "fst (sendMessage s sessionId msg e) = Inl err"
  then show "snd (sendMessage s sessionId msg e) = s"
    by (auto simp add: sendMessage_def processPrompt_promise_def Let_def
        split: option.splits if_splits)
qed

theorem sendMessage_rejected_unchanged_witness:
  "map_of (sessions started) ''s7'' = None
   \<and> sendMessage started ''s7'' ''hi'' (example_env ''s1'') = (Inl (SessionNotFound ''s7''), started)
   \<and> map_of (sessions ended) ''s1'' = Some (started_context\<lparr> status := Completed, updated_at := 1000 \<rparr>)
   \<and> status (started_context\<lparr> status := Completed, updated_at := 1000 \<rparr>) \<noteq> Active
   \<and> sendMessage ended ''s1'' ''hi'' (example_env ''s1'') = (Inl (SessionNotActive ''s1''), ended)"
proof -
  have h1: "map_of (sessions started) ''s7'' = None"
    by (simp add: started_eq)
  have h2: "map_of (sessions ended) ''s1'' = Some (started_context\<lparr> status := Completed, updated_at := 1000 \<rparr>)"
    by (simp add: ended_eq)
  have h3: "status (started_context\<lparr> status := Completed, updated_at := 1000 \<rparr>) \<noteq> Active"
    by simp
  show ?thesis
    using sendMessage_rejected_unchanged [of started "''s7''" "''hi''" "example_env ''s1''"]
      sendMessage_rejected_unchanged [of ended "''s1''" "''hi''" "example_env ''s1''"
        "started_context\<lparr> status := Completed, updated_at := 1000 \<rparr>"]
      h1 h2 h3
    by simp
qed

subsection \<open>Ending a session\<close>

text \<open>
  C2, as amended. \<open>endSession\<close> returns true for every id under which a session is
  stored and leaves that session stored with status \<open>completed\<close>, so a second call with
  the same id returns true again; it returns false only for an id under which nothing
  is stored, and then the instance is unchanged.
\<close>

theorem endSession_result:
  "(map_of (sessions s) sessionId \<noteq> None \<longrightarrow>
      fst (endSession s sessionId e) = True
    \<and> map_option status (map_of (sessions (snd (endSession s sessionId e))) sessionId) = Some Completed
    \<and> fst (endSession (snd (endSession s sessionId e)) sessionId e') = True)
   \<and> (map_of (sessions s) sessionId = None \<longrightarrow> endSession s sessionId e = (False, s))"
  by (auto simp add: endSession_def Let_def update_conv')

theorem endSession_result_witness:
  "map_of (sessions started) ''s1'' \<noteq> None
   \<and> fst (endSession started ''s1'' (example_env ''s1'')) = True
   \<and> fst (endSession (snd (endSession started ''s1'' (example_env ''s1''))) ''s1'' (example_env ''s1'')) = True
   \<and> map_of (sessions started) ''s7'' = None
   \<and> endSession started ''s7'' (example_env ''s1'') = (False, started)"
proof -
  have h1: "map_of (sessions started) ''s1'' \<noteq> None" by (simp add: started_eq)
  have h2: "map_of (sessions started) ''s7'' = None" by (simp add: started_eq)
  show ?thesis
    using endSession_result [of started "''s1''" "example_env ''s1''" "example_env ''s1''"]
      endSession_result [of started "''s7''" "example_env ''s1''" "example_env ''s1''"] h1 h2
    by simp
qed

text \<open>
  C2 as stated fails: after \<open>registerStrategy\<close>, \<open>startSession\<close> and a first \<open>endSession\<close>,
  the second \<open>endSession\<close> with the same id returns true, counts the session as completed
  a second time and takes the active counter below zero.
\<close>

theorem endSession_twice_counterexample:
  "fst (endSession started ''s1'' (example_env ''s1'')) = True
   \<and> fst (endSession ended ''s1'' (example_env ''s1'')) = True
   \<and> completedSessions (sessionStats ended) = 1
   \<and> completedSessions (sessionStats (snd (endSession ended ''s1'' (example_env ''s1'')))) = 2
   \<and> activeSessions (sessionStats ended) = 0
   \<and> activeSessions (sessionStats (snd (endSession ended ''s1'' (example_env ''s1'')))) = - 1"
  by (simp add: ended_eq started_eq endSession_def Let_def)

subsection \<open>Counting messages\<close>

lemma endSession_totalMessages:
  "totalMessages (sessionStats (snd (endSession s sid e))) = totalMessages (sessionStats s)"
  by (simp add: endSession_def Let_def split: option.splits)

lemma updateSessionContext_stats:
  "sessionStats (updateSessionContext s sid u e) = sessionStats s"
  by (simp add: updateSessionContext_def split: option.splits)

lemma updateSessionContext_lookup:
  "map_of (sessions s) sid = Some c \<Longrightarrow>
   map_of (sessions (updateSessionContext s sid u e)) sid = Some (update_context c u e)"
  by (simp add: updateSessionContext_def update_conv')

lemma update_context_fields:
  "messages (update_context c u e) = messages c"
  "messages_count (update_context c u e) = messages_count c"
  "status (update_context c u e) = status c"
  "user_id (update_context c u e) = user_id c"
  "session_id (update_context c u e) = session_id c"
  "strategy_name (update_context c u e) = strategy_name c"
  "user_inputs (update_context c u e) = object_assign (user_inputs c) u"
  by (simp_all add: update_context_def)

lemma sendMessage_returns:
  "map_of (sessions s) sessionId = Some c \<Longrightarrow> status c = Active \<Longrightarrow>
   map_of (agents s) (strategy_name c) = Some a \<Longrightarrow>
   \<exists>out. sendMessage s sessionId msg e = (Inr out, snd (sendMessage s sessionId msg e))"
  by (simp add: sendMessage_def processPrompt_promise_def Let_def)

text \<open>
  C10, as amended. After a successful \<open>startSession\<close> the stored session holds exactly
  one message, the assistant's reply to the synthetic turn, its \<open>messages_count\<close> is 0
  and \<open>totalMessages\<close> is what it was before the call. A successful \<open>sendMessage\<close>
  raises \<open>messages_count\<close> by two, once for the user message and once for the
  assistant message, and \<open>totalMessages\<close> by one, with the user message.
\<close>

theorem synthetic_turn_not_counted:
  "(startSession s userId strategyName initialContext e = (Inr ses, s') \<longrightarrow>
      map_of (sessions s') (started_session_id ses) = Some (session_context ses)
      \<and> messages (session_context ses) =
            [\<lparr> msg_id = gen_message_id e 0, msg_role = Assistant,
               msg_content = initial_message ses, msg_timestamp = clock e 3 \<rparr>]
      \<and> messages_count (session_context ses) = 0
      \<and> totalMessages (sessionStats s') = totalMessages (sessionStats s))
   \<and> (sendMessage s sessionId msg e = (Inr out, s'') \<and> map_of (sessions s) sessionId = Some c0 \<longrightarrow>
      map_option messages_count (map_of (sessions s'') sessionId) = Some (messages_count c0 + 2)
      \<and> map_option (map msg_role \<circ> messages) (map_of (sessions s'') sessionId)
           = Some (map msg_role (messages c0) @ [User, Assistant])
      \<and> totalMessages (sessionStats s'') = totalMessages (sessionStats s) + 1)"
proof (intro conjI impI)
  assume a: "startSession s userId strategyName initialContext e = (Inr ses, s')"
  from a show "map_of (sessions s') (started_session_id ses) = Some (session_context ses)"
    by (auto simp add: startSession_def Let_def update_conv' updateSessionContext_lookup
        split: option.splits)
  from a show "messages (session_context ses) =
            [\<lparr> msg_id = gen_message_id e 0, msg_role = Assistant,
               msg_content = initial_message ses, msg_timestamp = clock e 3 \<rparr>]"
    by (auto simp add: startSession_def Let_def update_context_fields split: option.splits)
  from a show "messages_count (session_context ses) = 0"
    by (auto simp add: startSession_def Let_def update_context_fields split: option.splits)
  from a show "totalMessages (sessionStats s') = totalMessages (sessionStats s)"
    by (auto simp add: startSession_def Let_def updateSessionContext_stats endSession_totalMessages
        split: option.splits)
next
  assume b: "sendMessage s sessionId msg e = (Inr out, s'') \<and> map_of (sessions s) sessionId = Some c0"
  then have b1: "sendMessage s sessionId msg e = (Inr out, s'')"
    and b2: "map_of (sessions s) sessionId = Some c0"
    by simp_all
  from b1 b2 show "map_option messages_count (map_of (sessions s'') sessionId)
      = Some (messages_count c0 + 2)"
    by (auto simp add: sendMessage_def processPrompt_promise_def Let_def update_conv'
        updateSessionContext_lookup update_context_fields map_of_map_entry
        split: option.splits if_splits)
  from b1 b2 show "map_option (map msg_role \<circ> messages) (map_of (sessions s'') sessionId)
           = Some (map msg_role (messages c0) @ [User, Assistant])"
    by (auto simp add: sendMessage_def processPrompt_promise_def Let_def update_conv'
        updateSessionContext_lookup update_context_fields map_of_map_entry
        split: option.splits if_splits)
  from b1 b2 show "totalMessages (sessionStats s'') = totalMessages (sessionStats s) + 1"
    by (auto simp add: sendMessage_def processPrompt_promise_def Let_def updateSessionContext_stats
        split: option.splits if_splits)
qed

theorem synthetic_turn_not_counted_witness:
  "startSession registered ''user-1'' ''bot'' None (example_env ''s1'') =
      (Inr \<lparr> started_session_id = ''s1'', initial_message = ''Hello'',
              session_context = started_context \<rparr>, started)
   \<and> map_of (sessions started) ''s1'' = Some started_context
   \<and> length (messages started_context) = 1
   \<and> messages_count started_context = 0
   \<and> totalMessages (sessionStats started) = totalMessages (sessionStats registered)
   \<and> (\<exists>out. sendMessage started ''s1'' ''hi'' (example_env ''s1'') =
         (Inr out, snd (sendMessage started ''s1'' ''hi'' (example_env ''s1''))))
   \<and> map_option messages_count
        (map_of (sessions (snd (sendMessage started ''s1'' ''hi'' (example_env ''s1''))) ) ''s1'') = Some 2
   \<and> totalMessages (sessionStats (snd (sendMessage started ''s1'' ''hi'' (example_env ''s1'')))) = 1"
proof -
  have h1: "startSession registered ''user-1'' ''bot'' None (example_env ''s1'') =
      (Inr \<lparr> started_session_id = ''s1'', initial_message = ''Hello'',
              session_context = started_context \<rparr>, started)"
  proof (rule prod_eqI)
    show "fst (startSession registered ''user-1'' ''bot'' None (example_env ''s1'')) =
        fst (Inr \<lparr> started_session_id = ''s1'', initial_message = ''Hello'',
              session_context = started_context \<rparr>, started)"
      by (simp add: registered_eq startSession_def findSessionByUser_def Let_def
          example_answer example_env_fields started_context_def example_context_def example_message)
    show "snd (startSession registered ''user-1'' ''bot'' None (example_env ''s1'')) =
        snd (Inr \<lparr> started_session_id = ''s1'', initial_message = ''Hello'',
              session_context = started_context \<rparr>, started)"
      by (simp add: started_def)
  qed
  have h2: "map_of (sessions started) ''s1'' = Some started_context"
    by (simp add: started_eq)
  have h3: "\<exists>out. sendMessage started ''s1'' ''hi'' (example_env ''s1'') =
         (Inr out, snd (sendMessage started ''s1'' ''hi'' (example_env ''s1'')))"
    by (rule sendMessage_returns [OF h2]) (simp_all add: started_context_fields started_eq)
  then obtain out where h4: "sendMessage started ''s1'' ''hi'' (example_env ''s1'') =
         (Inr out, snd (sendMessage started ''s1'' ''hi'' (example_env ''s1'')))" ..
  have t0: "totalMessages (sessionStats started) = 0" "totalMessages (sessionStats registered) = 0"
    by (simp_all add: started_eq registered_eq)
  show ?thesis
    using synthetic_turn_not_counted [of registered "''user-1''" "''bot''" None "example_env ''s1''"
        "\<lparr> started_session_id = ''s1'', initial_message = ''Hello'', session_context = started_context \<rparr>"
        started "''s1''" "''hi''" out "snd (sendMessage started ''s1'' ''hi'' (example_env ''s1''))"
        started_context]
      synthetic_turn_not_counted [of started "''user-1''" "''bot''" None "example_env ''s1''"
        "\<lparr> started_session_id = ''s1'', initial_message = ''Hello'', session_context = started_context \<rparr>"
        started "''s1''" "''hi''" out "snd (sendMessage started ''s1'' ''hi'' (example_env ''s1''))"
        started_context]
      h1 h2 h3 h4 t0
    by (simp add: started_context_fields)
qed

text \<open>
  C10 as stated fails in its last clause: a \<open>sendMessage\<close> on the session of the example
  appends the user message and the assistant message and raises \<open>messages_count\<close> from
  0 to 2, but \<open>totalMessages\<close> only from 0 to 1: it is not raised for the assistant
  message.
\<close>

theorem sendMessage_counts_counterexample:
  "map_option (length \<circ> messages) (getSarufiSession started ''s1'') = Some 1
   \<and> map_option messages_count (getSarufiSession started ''s1'') = Some 0
   \<and> totalMessages (sessionStats started) = 0
   \<and> map_option (map msg_role \<circ> messages)
        (getSarufiSession (snd (sendMessage started ''s1'' ''hi'' (example_env ''s1''))) ''s1'')
        = Some [Assistant, User, Assistant]
   \<and> map_option messages_count
        (getSarufiSession (snd (sendMessage started ''s1'' ''hi'' (example_env ''s1''))) ''s1'') = Some 2
   \<and> totalMessages (sessionStats (snd (sendMessage started ''s1'' ''hi'' (example_env ''s1'')))) = 1"
proof -
  have esc: "should_escalate (interpretDecision (example_decision [] [] ''why'' (1 / 2) [] False) p c e)
      = False" for p c e
    by (simp add: should_escalate_def interpretDecision_def Let_def example_decision_def)
  show ?thesis
    by (simp add: getSarufiSession_def started_eq started_context_fields sendMessage_def
        processPrompt_promise_def example_answer esc Let_def updateSessionContext_def
        update_context_def)
qed

subsection \<open>A failing oracle turn\<close>

lemma try_failure_independent:
  "processPrompt_try a p c e = Inl t \<Longrightarrow> processPrompt_try a' p' c' e = Inl t"
  by (auto simp add: processPrompt_try_def split: oracle_result.splits option.splits payload.splits)

lemma fallback_fields:
  "message (generateFallbackResponse t e) =
     ''I apologize, but I'm having trouble processing your message right now. Could you please rephrase or try again?''"
  "reasoning (generateFallbackResponse t e) = ''System error: '' @ thrown_message t"
  "context_updates (generateFallbackResponse t e) =
     [(''last_error'', JStr (thrown_message t)), (''error_timestamp'', JStr (iso_clock e 2)),
      (''fallback_used'', JBool True)]"
  "suggested_next_user_action (generateFallbackResponse t e) = Some ''rephrase_or_retry''"
  "should_escalate (generateFallbackResponse t e) = True"
  by (simp_all add: generateFallbackResponse_def should_escalate_def)

lemma lookup_last_error:
  "map_of (object_assign u [(''last_error'', v), (''error_timestamp'', w), (''fallback_used'', x)])
     ''last_error'' = Some v"
  by (simp add: lookup_object_assign_distinct)

text \<open>
  The failures of a turn: the oracle round throws (an oracle error or a timeout), it
  returns no \<open>answer\<close> call, or the input of the \<open>answer\<close> call is malformed. Each makes
  the \<open>try\<close> block of \<open>processPrompt\<close> throw.
\<close>

lemma turn_failures:
  "oracle_outcome e = Throws t \<Longrightarrow> processPrompt_try a p c e = Inl t"
  "oracle_outcome e = Returns [] \<Longrightarrow> processPrompt_try a p c e = Inl (Err ''No decision tool call found'')"
  "oracle_outcome e = Returns [\<lparr> toolName = ''answer'', tool_input = Malformed t \<rparr>] \<Longrightarrow>
     processPrompt_try a p c e = Inl t"
  by (simp_all add: processPrompt_try_def)

text \<open>
  C1, as amended. Whether the \<open>try\<close> block of \<open>processPrompt\<close> throws depends on
  the environment alone. When the oracle turn of a \<open>sendMessage\<close> call on an active session
  fails, \<open>processPrompt\<close> catches the failure and the agent's fallback response is
  handled as the response of the turn: the call returns an output with the agent's
  fixed apologetic message and the reasoning \<open>System error: \<close> followed by the error
  detail, the user message and the fallback message are appended to the session, and
  the fallback's context delta (\<open>last_error\<close>, \<open>error_timestamp\<close>, \<open>fallback_used\<close>)
  is merged into \<open>user_inputs\<close>.
\<close>

theorem failed_turn_uses_fallback:
  assumes "map_of (sessions s) sessionId = Some context"
    and "status context = Active"
    and "map_of (agents s) (strategy_name context) = Some agent"
    and "processPrompt_try agent msg context e = Inl t"
  shows "\<exists>out s' context'.
      sendMessage s sessionId msg e = (Inr out, s')
    \<and> map_of (sessions s') sessionId = Some context'
    \<and> out_message out =
        ''I apologize, but I'm having trouble processing your message right now. Could you please rephrase or try again?''
    \<and> agent_reasoning out = Some (''System error: '' @ thrown_message t)
    \<and> user_inputs context' = object_assign (user_inputs context)
        [(''last_error'', JStr (thrown_message t)), (''error_timestamp'', JStr (iso_clock e 2)),
         (''fallback_used'', JBool True)]
    \<and> map msg_content (messages context') = map msg_content (messages context) @
        [msg, ''I apologize, but I'm having trouble processing your message right now. Could you please rephrase or try again?'']"
proof -
  have pp: "processPrompt agent msg c e = generateFallbackResponse t e" for c
    using try_failure_independent [OF assms(4), of agent msg c]
    by (simp add: processPrompt_def)
  show ?thesis
    using assms(1-3)
    by (simp add: sendMessage_def processPrompt_promise_def Let_def pp fallback_fields
        updateSessionContext_def update_conv' map_of_map_entry update_context_def)
qed

theorem failed_turn_uses_fallback_witness:
  "map_of (sessions started) ''s1'' = Some started_context
   \<and> status started_context = Active
   \<and> map_of (agents started) (strategy_name started_context) = Some \<lparr> agent_strategy = example_strategy \<rparr>
   \<and> processPrompt_try \<lparr> agent_strategy = example_strategy \<rparr> ''hi'' started_context failing_env
        = Inl (Err ''timeout'')
   \<and> (\<exists>out s' context'.
      sendMessage started ''s1'' ''hi'' failing_env = (Inr out, s')
    \<and> map_of (sessions s') ''s1'' = Some context'
    \<and> agent_reasoning out = Some ''System error: timeout''
    \<and> map_of (user_inputs context') ''last_error'' = Some (JStr ''timeout''))"
proof -
  have h1: "map_of (sessions started) ''s1'' = Some started_context"
    by (simp add: started_eq)
  have h2: "status started_context = Active"
    by (simp add: started_context_fields)
  have h3: "map_of (agents started) (strategy_name started_context)
      = Some \<lparr> agent_strategy = example_strategy \<rparr>"
    by (simp add: started_eq started_context_fields)
  have h4: "processPrompt_try \<lparr> agent_strategy = example_strategy \<rparr> ''hi'' started_context failing_env
      = Inl (Err ''timeout'')"
    by (simp add: processPrompt_try_def failing_env_def)
  from failed_turn_uses_fallback [OF h1 h2 h3 h4]
  obtain out s' context' where
    "sendMessage started ''s1'' ''hi'' failing_env = (Inr out, s')"
    "map_of (sessions s') ''s1'' = Some context'"
    "agent_reasoning out = Some (''System error: '' @ thrown_message (Err ''timeout''))"
    "user_inputs context' = object_assign (user_inputs started_context)
        [(''last_error'', JStr (thrown_message (Err ''timeout''))),
         (''error_timestamp'', JStr (iso_clock failing_env 2)),
         (''fallback_used'', JBool True)]"
    by blast
  then have "sendMessage started ''s1'' ''hi'' failing_env = (Inr out, s')
    \<and> map_of (sessions s') ''s1'' = Some context'
    \<and> agent_reasoning out = Some ''System error: timeout''
    \<and> map_of (user_inputs context') ''last_error'' = Some (JStr ''timeout'')"
    by (simp add: thrown_message_def lookup_last_error)
  then show ?thesis using h1 h2 h3 h4 by blast
qed

text \<open>
  C1 as stated fails: on the active session of the example, with an oracle that throws
  \<open>timeout\<close>, the output and the stored session are \<open>escalated\<close>, \<open>last_error\<close> is
  written to \<open>user_inputs\<close>, and the error counter stays at 0.
\<close>

theorem oracle_failure_counterexample:
  "map_option status (getSarufiSession started ''s1'') = Some Active
   \<and> fst (sendMessage started ''s1'' ''hi'' failing_env) =
       Inr \<lparr> out_message = ''I apologize, but I'm having trouble processing your message right now. Could you please rephrase or try again?'',
             out_session_id = ''s1'',
             agent_reasoning = Some ''System error: timeout'',
             suggested_actions = Some [''rephrase_or_retry''],
             session_status = Escalated \<rparr>
   \<and> map_option status (getSarufiSession (snd (sendMessage started ''s1'' ''hi'' failing_env)) ''s1'')
        = Some Escalated
   \<and> stored_input started ''s1'' ''last_error'' = None
   \<and> stored_input (snd (sendMessage started ''s1'' ''hi'' failing_env)) ''s1'' ''last_error''
        = Some (JStr ''timeout'')
   \<and> errorCount (sessionStats started) = 0
   \<and> errorCount (sessionStats (snd (sendMessage started ''s1'' ''hi'' failing_env))) = 0"
proof -
  have ui: "map_of (user_inputs started_context) ''last_error'' = None"
    by (simp add: started_context_def update_context_def example_context_def
        interpretDecision_def Let_def object_assign_def derived_updates_def example_decision_def)
  show ?thesis
    by (simp add: getSarufiSession_def stored_input_def started_eq sendMessage_def started_context_fields
        processPrompt_promise_def failing_turn fallback_fields Let_def updateSessionContext_def
        update_context_def thrown_message_def ui lookup_last_error)
qed

subsection \<open>One active session for each user\<close>

lemma count_update_present:
  "map_of al k = Some c \<Longrightarrow>
   length (filter P (map snd (AList.update k v al))) + (if P c then 1 else 0)
     = length (filter P (map snd al)) + (if P v then 1 else 0)"
  by (induction al) (auto split: if_splits)

lemma count_update_absent:
  "map_of al k = None \<Longrightarrow>
   length (filter P (map snd (AList.update k v al)))
     = length (filter P (map snd al)) + (if P v then 1 else 0)"
  by (induction al) (auto split: if_splits)

lemma count_update_le:
  "length (filter P (map snd (AList.update k v al)))
     \<le> length (filter P (map snd al)) + (if P v then 1 else 0)"
proof (cases "map_of al k")
  case None
  from count_update_absent [OF None, of P v] show ?thesis by simp
next
  case (Some c)
  from count_update_present [OF Some, of P v] show ?thesis by (simp split: if_splits)
qed

lemma count_map_entry_le:
  "(\<And>c. P (f c) \<Longrightarrow> P c) \<Longrightarrow>
   length (filter P (map snd (AList.map_entry k f al))) \<le> length (filter P (map snd al))"
  by (induction al) (auto split: if_splits)

lemma set_update_subset: "set (AList.update k v al) \<subseteq> insert (k, v) (set al)"
  by (induction al) auto

lemma set_map_entry:
  "(k', c') \<in> set (AList.map_entry k f al) \<Longrightarrow>
   (k', c') \<in> set al \<or> (\<exists>c. (k', c) \<in> set al \<and> c' = f c)"
  by (induction al) (auto split: if_splits)

lemma sessions_ok_lookup:
  "sessions_ok al \<Longrightarrow> map_of al k = Some c \<Longrightarrow> session_id c = k"
  by (auto simp: sessions_ok_def dest: map_of_SomeD)

lemma sessions_ok_replace:
  assumes ok: "sessions_ok al" and look: "map_of al k = Some c"
    and sid: "session_id v = session_id c" and uid: "user_id v = user_id c"
    and st: "status v = Active \<Longrightarrow> status c = Active"
  shows "sessions_ok (AList.update k v al)"
proof -
  have k: "session_id v = k" using sessions_ok_lookup [OF ok look] sid by simp
  have d: "distinct (map fst (AList.update k v al))"
    using ok by (simp add: sessions_ok_def distinct_update)
  have ids: "\<forall>(k', c') \<in> set (AList.update k v al). session_id c' = k'"
    using ok k set_update_subset [of k v al] by (auto simp: sessions_ok_def)
  have cnt: "length (filter (\<lambda>c. user_id c = u \<and> status c = Active) (map snd (AList.update k v al))) \<le> 1" for u
  proof -
    let ?P = "\<lambda>c. user_id c = u \<and> status c = Active"
    have "length (filter ?P (map snd al)) \<le> 1" using ok by (simp add: sessions_ok_def)
    moreover have "?P v \<Longrightarrow> ?P c" using uid st by simp
    ultimately show ?thesis
      using count_update_present [OF look, of ?P v] by (auto split: if_splits)
  qed
  show ?thesis unfolding sessions_ok_def using d ids cnt by blast
qed

lemma sessions_ok_new:
  assumes ok: "sessions_ok al" and k: "session_id v = k"
    and none: "filter (\<lambda>c. user_id c = user_id v \<and> status c = Active) (map snd al) = []"
  shows "sessions_ok (AList.update k v al)"
proof -
  have d: "distinct (map fst (AList.update k v al))"
    using ok by (simp add: sessions_ok_def distinct_update)
  have ids: "\<forall>(k', c') \<in> set (AList.update k v al). session_id c' = k'"
    using ok k set_update_subset [of k v al] by (auto simp: sessions_ok_def)
  have cnt: "length (filter (\<lambda>c. user_id c = u \<and> status c = Active) (map snd (AList.update k v al))) \<le> 1" for u
  proof (cases "u = user_id v")
    case True
    then show ?thesis
      using count_update_le [of "\<lambda>c. user_id c = u \<and> status c = Active" k v al] none
      by (auto split: if_splits)
  next
    case False
    have "length (filter (\<lambda>c. user_id c = u \<and> status c = Active) (map snd al)) \<le> 1"
      using ok by (simp add: sessions_ok_def)
    then show ?thesis
      using count_update_le [of "\<lambda>c. user_id c = u \<and> status c = Active" k v al] False
      by (auto split: if_splits)
  qed
  show ?thesis unfolding sessions_ok_def using d ids cnt by blast
qed

lemma sessions_ok_map_entry:
  assumes ok: "sessions_ok al"
    and f: "\<And>c. session_id (f c) = session_id c \<and> user_id (f c) = user_id c
               \<and> (status (f c) = Active \<longrightarrow> status c = Active)"
  shows "sessions_ok (AList.map_entry k f al)"
proof -
  have d: "distinct (map fst (AList.map_entry k f al))"
    using ok by (simp add: sessions_ok_def distinct_map_entry)
  have ids: "\<forall>(k', c') \<in> set (AList.map_entry k f al). session_id c' = k'"
    using ok f by (auto simp: sessions_ok_def dest!: set_map_entry)
  have cnt: "length (filter (\<lambda>c. user_id c = u \<and> status c = Active) (map snd (AList.map_entry k f al))) \<le> 1" for u
  proof -
    have "length (filter (\<lambda>c. user_id c = u \<and> status c = Active) (map snd al)) \<le> 1"
      using ok by (simp add: sessions_ok_def)
    moreover have "length (filter (\<lambda>c. user_id c = u \<and> status c = Active) (map snd (AList.map_entry k f al)))
        \<le> length (filter (\<lambda>c. user_id c = u \<and> status c = Active) (map snd al))"
      by (rule count_map_entry_le) (use f in auto)
    ultimately show ?thesis by linarith
  qed
  show ?thesis unfolding sessions_ok_def using d ids cnt by blast
qed

lemma endSession_ok:
  assumes ok: "sessions_ok (sessions s)"
  shows "sessions_ok (sessions (snd (endSession s sid e)))"
proof (cases "map_of (sessions s) sid")
  case None
  then show ?thesis using ok by (simp add: endSession_def)
next
  case (Some c)
  have "sessions_ok (AList.update sid (c\<lparr> status := Completed, updated_at := clock e 0 \<rparr>) (sessions s))"
    by (rule sessions_ok_replace [OF ok Some]) simp_all
  then show ?thesis using Some by (simp add: endSession_def Let_def)
qed

lemma updateSessionContext_ok:
  assumes ok: "sessions_ok (sessions s)"
  shows "sessions_ok (sessions (updateSessionContext s sid u e))"
proof (cases "map_of (sessions s) sid")
  case None
  then show ?thesis using ok by (simp add: updateSessionContext_def)
next
  case (Some c)
  have "sessions_ok (AList.update sid (update_context c u e) (sessions s))"
    by (rule sessions_ok_replace [OF ok Some]) (simp_all add: update_context_def)
  then show ?thesis using Some by (simp add: updateSessionContext_def)
qed

lemma sendMessage_ok:
  assumes ok: "sessions_ok (sessions s)"
  shows "sessions_ok (sessions (snd (sendMessage s sid msg e)))"
proof (cases "map_of (sessions s) sid")
  case None
  then show ?thesis using ok by (simp add: sendMessage_def)
next
  case (Some c)
  show ?thesis
  proof (cases "status c = Active \<and> map_of (agents s) (strategy_name c) \<noteq> None")
    case False
    then show ?thesis using ok Some by (auto simp add: sendMessage_def)
  next
    case True
    then obtain a where a: "map_of (agents s) (strategy_name c) = Some a" and act: "status c = Active"
      by auto
    define c1 where "c1 = c\<lparr> messages := messages c @
        [\<lparr> msg_id = gen_message_id e 1, msg_role = User, msg_content = msg, msg_timestamp = clock e 5 \<rparr>],
        messages_count := messages_count c + 1 \<rparr>"
    define r where "r = processPrompt a msg c1 e"
    define c2 where "c2 = c1\<lparr> messages := messages c1 @
        [\<lparr> msg_id = gen_message_id e 2, msg_role = Assistant, msg_content = message r, msg_timestamp = clock e 6 \<rparr>],
        messages_count := messages_count c1 + 1 \<rparr>"
    define s1 where "s1 = s\<lparr> sessions := AList.update sid c1 (sessions s),
        sessionStats := (sessionStats s)\<lparr> totalMessages := totalMessages (sessionStats s) + 1 \<rparr> \<rparr>"
    define s2 where "s2 = s1\<lparr> sessions := AList.update sid c2 (sessions s1) \<rparr>"
    define s3 where "s3 = updateSessionContext s2 sid (context_updates r) e"
    have ok1: "sessions_ok (sessions s1)"
      unfolding s1_def using sessions_ok_replace [OF ok Some, of c1] by (simp add: c1_def)
    have l1: "map_of (sessions s1) sid = Some c1" by (simp add: s1_def update_conv')
    have ok2: "sessions_ok (sessions s2)"
      unfolding s2_def using sessions_ok_replace [OF ok1 l1, of c2] by (simp add: c2_def)
    have ok3: "sessions_ok (sessions s3)"
      unfolding s3_def by (rule updateSessionContext_ok [OF ok2])
    have ok4: "sessions_ok (AList.map_entry sid (\<lambda>c. c\<lparr> status := Escalated \<rparr>) (sessions s3))"
      by (rule sessions_ok_map_entry [OF ok3]) simp
    have "snd (sendMessage s sid msg e) =
        (if should_escalate r
         then s3\<lparr> sessions := AList.map_entry sid (\<lambda>c. c\<lparr> status := Escalated \<rparr>) (sessions s3),
                  sessionStats := (sessionStats s3)\<lparr> activeSessions := activeSessions (sessionStats s3) - 1 \<rparr> \<rparr>
         else s3)"
      using Some a act
      by (simp add: sendMessage_def processPrompt_promise_def Let_def c1_def c2_def r_def s1_def s2_def s3_def)
    then show ?thesis using ok3 ok4 by simp
  qed
qed

lemma find_active_none:
  "find P xs = None \<Longrightarrow> filter P xs = []"
  by (induction xs) (auto split: if_splits)

lemma startSession_ok:
  assumes ok: "sessions_ok (sessions s)"
  shows "sessions_ok (sessions (snd (startSession s userId strategyName initialContext e)))"
proof (cases "map_of (strategies s) strategyName = None \<or> map_of (agents s) strategyName = None")
  case True
  then show ?thesis using ok by (auto simp add: startSession_def split: option.splits)
next
  case False
  then obtain strategy a where st: "map_of (strategies s) strategyName = Some strategy"
    and a: "map_of (agents s) strategyName = Some a" by auto
  let ?P = "\<lambda>c. user_id c = userId \<and> status c = Active"
  define s0 where "s0 = (case findSessionByUser s userId of None \<Rightarrow> s
      | Some existingSession \<Rightarrow> snd (endSession s (session_id existingSession) e))"
  have ok0: "sessions_ok (sessions s0)"
    unfolding s0_def using ok endSession_ok [OF ok] by (simp split: option.splits)
  have none0: "filter ?P (map snd (sessions s0)) = []"
  proof (cases "findSessionByUser s userId")
    case None
    then show ?thesis
      unfolding s0_def by (simp add: findSessionByUser_def find_active_none)
  next
    case (Some ex)
    then have ex_in: "ex \<in> set (map snd (sessions s))" and ex_P: "?P ex"
      by (auto simp add: findSessionByUser_def find_Some_iff)
    then obtain k where kin: "(k, ex) \<in> set (sessions s)" by auto
    with ok have k: "k = session_id ex" by (auto simp: sessions_ok_def)
    from ok kin have look: "map_of (sessions s) (session_id ex) = Some ex"
      unfolding k by (simp add: sessions_ok_def)
    let ?ex' = "ex\<lparr> status := Completed, updated_at := clock e 0 \<rparr>"
    have s0_sessions: "sessions s0 = AList.update (session_id ex) ?ex' (sessions s)"
      unfolding s0_def using Some look by (simp add: endSession_def Let_def)
    have cnt: "length (filter ?P (map snd (sessions s))) \<le> 1"
      using ok by (simp add: sessions_ok_def)
    have eq: "length (filter ?P (map snd (AList.update (session_id ex) ?ex' (sessions s)))) + 1
        = length (filter ?P (map snd (sessions s)))"
      using count_update_present [OF look, of ?P ?ex'] ex_P by (simp del: filter_map)
    from cnt eq have "length (filter ?P (map snd (sessions s0))) = 0"
      unfolding s0_sessions by linarith
    then show ?thesis by (simp only: length_0_conv)
  qed
  define c where "c = \<lparr> session_id = gen_session_id e, user_id = userId, strategy_name = strategyName,
      status = Active, current_goal = ''initial_engagement'', messages_count = 0,
      user_inputs = (case initialContext of None \<Rightarrow> [] | Some r \<Rightarrow> r),
      user_profile = \<lparr> detected_intent = None, sentiment = None, expertise_level = None \<rparr>,
      messages = [],
      agent_memory = \<lparr> last_action = ''session_started'', reasoning_history = [],
                       failed_attempts = [], successful_patterns = [] \<rparr>,
      created_at = clock e 1, updated_at = clock e 2 \<rparr>"
  define r where "r = processPrompt a ''[SESSION_STARTED]'' c e"
  define c1 where "c1 = c\<lparr> messages := messages c @
      [\<lparr> msg_id = gen_message_id e 0, msg_role = Assistant, msg_content = message r, msg_timestamp = clock e 3 \<rparr>] \<rparr>"
  define s1 where "s1 = s0\<lparr> sessions := AList.update (gen_session_id e) c (sessions s0),
      sessionStats := (sessionStats s0)\<lparr> totalSessions := totalSessions (sessionStats s0) + 1,
         activeSessions := activeSessions (sessionStats s0) + 1 \<rparr> \<rparr>"
  define s2 where "s2 = s1\<lparr> sessions := AList.update (gen_session_id e) c1 (sessions s1) \<rparr>"
  have ok1: "sessions_ok (sessions s1)"
    unfolding s1_def using sessions_ok_new [OF ok0, of c "gen_session_id e"] none0 by (simp add: c_def)
  have l1: "map_of (sessions s1) (gen_session_id e) = Some c" by (simp add: s1_def update_conv')
  have ok2: "sessions_ok (sessions s2)"
    unfolding s2_def using sessions_ok_replace [OF ok1 l1, of c1] by (simp add: c1_def)
  have "snd (startSession s userId strategyName initialContext e)
      = updateSessionContext s2 (gen_session_id e) (context_updates r) e"
    using st a by (simp add: startSession_def Let_def s0_def c_def r_def c1_def s1_def s2_def)
  then show ?thesis using updateSessionContext_ok [OF ok2] by simp
qed

lemma perform_ok:
  "sessions_ok (sessions s) \<Longrightarrow> sessions_ok (sessions (perform call s))"
proof (cases call)
  case (RegisterStrategy E st)
  assume "sessions_ok (sessions s)"
  then show ?thesis using RegisterStrategy
    by (simp add: registerStrategy_def Let_def split: option.splits sum.splits)
next
  case (UnregisterStrategy n)
  assume "sessions_ok (sessions s)"
  then show ?thesis using UnregisterStrategy by (simp add: unregisterStrategy_def Let_def)
next
  case (StartSession u n i e)
  assume "sessions_ok (sessions s)"
  then show ?thesis using StartSession by (simp add: startSession_ok)
next
  case (SendMessage sid m e)
  assume "sessions_ok (sessions s)"
  then show ?thesis using SendMessage by (simp add: sendMessage_ok)
next
  case (EndSession sid e)
  assume "sessions_ok (sessions s)"
  then show ?thesis using EndSession by (simp add: endSession_ok)
qed

lemma fold_perform_ok:
  "sessions_ok (sessions s) \<Longrightarrow> sessions_ok (sessions (fold perform calls s))"
  by (induction calls arbitrary: s) (simp_all add: perform_ok)

text \<open>
  C5. In every state that a sequence of calls leads to from a new instance, so at every
  point after a \<open>startSession\<close> call has returned, each user has at most one stored
  session with status \<open>active\<close>.
\<close>

theorem at_most_one_active_session:
  "length (active_sessions_of (run calls) userId) \<le> 1"
proof -
  have "sessions_ok (sessions new_Sarufi)"
    by (simp add: sessions_ok_def new_Sarufi_def)
  then have "sessions_ok (sessions (run calls))"
    unfolding run_def by (rule fold_perform_ok)
  then show ?thesis
    by (simp add: sessions_ok_def active_sessions_of_def)
qed

text \<open>
  A second \<open>startSession\<close> for the same user: the first session is completed, the new
  one is the user's only active session.
\<close>

theorem at_most_one_active_session_witness:
  "map (status \<circ> snd) (sessions (run
      [RegisterStrategy example_engine example_strategy,
       StartSession ''user-1'' ''bot'' None (example_env ''s1''),
       StartSession ''user-1'' ''bot'' None (example_env ''s2'')])) = [Completed, Active]
   \<and> length (active_sessions_of (run
      [RegisterStrategy example_engine example_strategy,
       StartSession ''user-1'' ''bot'' None (example_env ''s1''),
       StartSession ''user-1'' ''bot'' None (example_env ''s2'')]) ''user-1'') = 1"
proof -
  have r: "run [RegisterStrategy example_engine example_strategy,
       StartSession ''user-1'' ''bot'' None (example_env ''s1''),
       StartSession ''user-1'' ''bot'' None (example_env ''s2'')]
     = snd (startSession started ''user-1'' ''bot'' None (example_env ''s2''))"
    by (simp add: run_def registered_def started_def)
  have st: "map (status \<circ> snd) (sessions (snd (startSession started ''user-1'' ''bot'' None (example_env ''s2''))))
      = [Completed, Active]"
    by (simp add: started_eq startSession_def findSessionByUser_def started_context_fields Let_def
        endSession_def updateSessionContext_def update_context_def example_env_fields)
  have us: "map (user_id \<circ> snd) (sessions (snd (startSession started ''user-1'' ''bot'' None (example_env ''s2''))))
      = [''user-1'', ''user-1'']"
    by (simp add: started_eq startSession_def findSessionByUser_def started_context_fields Let_def
        endSession_def updateSessionContext_def update_context_def example_env_fields)
  have "length (active_sessions_of (snd (startSession started ''user-1'' ''bot'' None (example_env ''s2''))) ''user-1'') \<ge> 1"
  proof -
    obtain x y where xy: "sessions (snd (startSession started ''user-1'' ''bot'' None (example_env ''s2''))) = [x, y]"
      using st by (auto simp: map_eq_Cons_conv)
    with st us show ?thesis
      by (simp add: active_sessions_of_def)
  qed
  with at_most_one_active_session [of "[RegisterStrategy example_engine example_strategy,
       StartSession ''user-1'' ''bot'' None (example_env ''s1''),
       StartSession ''user-1'' ''bot'' None (example_env ''s2'')]" "''user-1''"] r st
  show ?thesis by simp
qed

section \<open>Properties of the strategy performance\<close>

text \<open>
  C8. For a strategy name that no stored session is bound to, \<open>getStrategyPerformance\<close>
  returns a completion rate, an escalation rate, an average message count and a
  performance score of 0: the \<open>NaN\<close> of the division \<open>0 / 0\<close> is replaced by 0.
\<close>

theorem performance_without_sessions:
  "filter (\<lambda>c. strategy_name c = strategyName) (map snd (sessions s)) = [] \<Longrightarrow>
   getStrategyPerformance s strategyName =
     \<lparr> perf_strategy_name = strategyName, total_sessions = 0, completion_rate = 0,
       escalation_rate = 0, average_messages = Finite 0, performance_score = 0 \<rparr>"
  by (simp add: getStrategyPerformance_def Let_def js_divide_def or_zero_def
      calculatePerformanceScore_def)

theorem performance_without_sessions_witness:
  "filter (\<lambda>c. strategy_name c = ''bot'') (map snd (sessions registered)) = []
   \<and> getStrategyPerformance registered ''bot'' =
     \<lparr> perf_strategy_name = ''bot'', total_sessions = 0, completion_rate = 0,
       escalation_rate = 0, average_messages = Finite 0, performance_score = 0 \<rparr>
   \<and> filter (\<lambda>c. strategy_name c = ''idle'') (map snd (sessions started)) = []
   \<and> getStrategyPerformance started ''idle'' =
     \<lparr> perf_strategy_name = ''idle'', total_sessions = 0, completion_rate = 0,
       escalation_rate = 0, average_messages = Finite 0, performance_score = 0 \<rparr>"
proof -
  have h1: "filter (\<lambda>c. strategy_name c = ''bot'') (map snd (sessions registered)) = []"
    by (simp add: registered_eq)
  have h2: "filter (\<lambda>c. strategy_name c = ''idle'') (map snd (sessions started)) = []"
    by (simp add: started_eq started_context_fields)
  show ?thesis
    using performance_without_sessions [OF h1] performance_without_sessions [OF h2] h1 h2
    by simp
qed

end
